theory Spec2Isabelle
  imports Main "HOL-Library.AList"
begin

section \<open>apkReforge: the pipeline of \<open>src/apkReforge.py\<close>\<close>

text \<open>
  The program drives external tools. Everything it asks of the operating system is a
  field of the record \<open>'w os\<close>, over a state of the outside world \<open>'w\<close>; the
  methods of class \<open>APKReforge\<close> are functions on a state that holds the object's
  fields, the world, and the trace of what was done (log records, prints, process
  invocations, directory creation and removal). Text is restricted to code points
  below 256 (one \<open>char\<close> each).
\<close>

subsection \<open>Results, exceptions, events\<close>

datatype exn = TimeoutExpired "string list" nat | OSError string

text \<open>A call returns, raises, or never returns.\<close>

datatype 'a res = Ret 'a | Raise exn | Diverge

record completed =
  returncode :: int
  stdout :: string
  stderr :: string

text \<open>
  What a child process does when left alone: it exits after some seconds, it never
  exits, or it cannot be launched at all.
\<close>

datatype behaviour = Exits nat completed | NeverExits | CannotLaunch string

datatype level = DEBUG | INFO | WARNING | ERROR

datatype event =
    Print string
  | Log level string
  | Spawn "string list" "nat option" "completed res"
  | Mkdtemp string "exn + string"
  | Rmtree string "exn option"

record 'w os =
  os_which :: "'w \<Rightarrow> string \<Rightarrow> string option"
  os_exists :: "'w \<Rightarrow> string \<Rightarrow> bool"
  os_read :: "'w \<Rightarrow> string \<Rightarrow> exn + string"
  os_home :: "'w \<Rightarrow> string"
  os_gettempdir :: "'w \<Rightarrow> string"
  os_abspath :: "'w \<Rightarrow> string \<Rightarrow> string"
  os_mkdtemp :: "'w \<Rightarrow> string \<Rightarrow> (exn + string) \<times> 'w"
  os_rmtree :: "'w \<Rightarrow> string \<Rightarrow> exn option \<times> 'w"
  os_process :: "'w \<Rightarrow> string list \<Rightarrow> behaviour \<times> 'w"
  py_repr :: "string \<Rightarrow> string"
  py_int_max_str_digits :: nat

record 'w st =
  world :: 'w
  trace :: "event list"
  temp_dir :: "string option"
  verbose :: bool
  android_debug_keystore :: string

subsection \<open>Strings and paths\<close>

definition HEADER :: string where "HEADER = CHR 0x1B # ''[95m''"
definition BLUE :: string where "BLUE = CHR 0x1B # ''[94m''"
definition CYAN :: string where "CYAN = CHR 0x1B # ''[96m''"
definition GREEN :: string where "GREEN = CHR 0x1B # ''[92m''"
definition YELLOW :: string where "YELLOW = CHR 0x1B # ''[93m''"
definition RED :: string where "RED = CHR 0x1B # ''[91m''"
definition BOLD :: string where "BOLD = CHR 0x1B # ''[1m''"
definition RESET :: string where "RESET = CHR 0x1B # ''[0m''"

definition version :: string where "version = ''1.1.2''"

definition NL :: string where "NL = [CHR 0x0A]"
definition TAB :: char where "TAB = CHR 0x09"

fun join :: "string \<Rightarrow> string list \<Rightarrow> string" where
  "join sep [] = []"
| "join sep [x] = x"
| "join sep (x # y # ys) = x @ sep @ join sep (y # ys)"

fun startswith :: "string \<Rightarrow> string \<Rightarrow> bool" where
  "startswith [] s = True"
| "startswith (p # ps) [] = False"
| "startswith (p # ps) (c # cs) = (p = c \<and> startswith ps cs)"

text \<open>Python's \<open>sub in s\<close>.\<close>

fun contains :: "string \<Rightarrow> string \<Rightarrow> bool" where
  "contains sub [] = (sub = [])"
| "contains sub (c # cs) = (startswith sub (c # cs) \<or> contains sub cs)"

text \<open>\<open>str.isspace\<close> and the regular expression class \<open>\s\<close>, below 256.\<close>

definition is_space :: "char \<Rightarrow> bool" where
  "is_space c = (c \<in> set [CHR 0x09, CHR 0x0A, CHR 0x0B, CHR 0x0C, CHR 0x0D,
     CHR 0x1C, CHR 0x1D, CHR 0x1E, CHR 0x1F, CHR 0x20, CHR 0x85, CHR 0xA0])"

definition is_digit :: "char \<Rightarrow> bool" where
  "is_digit c = (c \<in> set ''0123456789'')"

definition strip :: "string \<Rightarrow> string" where
  "strip s = rev (dropWhile is_space (rev (dropWhile is_space s)))"

definition digit_char :: "nat \<Rightarrow> char" where
  "digit_char d = ''0123456789'' ! d"

function str_nat :: "nat \<Rightarrow> string" where
  "str_nat n = (if n < 10 then [digit_char n] else str_nat (n div 10) @ [digit_char (n mod 10)])"
  by pat_completeness auto
termination
  by (relation "measure id") auto

definition str_int :: "int \<Rightarrow> string" where
  "str_int i = (if i < 0 then ''-'' @ str_nat (nat (- i)) else str_nat (nat i))"

definition digit_val :: "char \<Rightarrow> int" where
  "digit_val c = int (of_char c) - 48"

text \<open>
  \<open>int(s)\<close> on a string of decimal digits. The interpreter refuses a string of more
  digits than \<open>sys.get_int_max_str_digits()\<close> with a ValueError (no value here); 0
  means no limit.
\<close>

definition int_of_digits :: "string \<Rightarrow> int" where
  "int_of_digits ds = foldl (\<lambda>a d. 10 * a + digit_val d) 0 ds"

definition py_int :: "'w os \<Rightarrow> string \<Rightarrow> int option" where
  "py_int env ds =
     (if py_int_max_str_digits env \<noteq> 0 \<and> py_int_max_str_digits env < length ds then None
      else Some (int_of_digits ds))"

text \<open>\<open>str(e)\<close>.\<close>

definition str_exn :: "'w os \<Rightarrow> exn \<Rightarrow> string" where
  "str_exn env e =
     (case e of
        TimeoutExpired cmd t \<Rightarrow>
          ''Command '' @ [CHR 0x27] @ ''['' @ join '', '' (map (py_repr env) cmd) @ '']'' @ [CHR 0x27]
            @ '' timed out after '' @ str_nat t @ '' seconds''
      | OSError msg \<Rightarrow> msg)"

text \<open>\<open>os.path.join\<close> and \<open>os.path.basename\<close> (POSIX).\<close>

definition path_join :: "string \<Rightarrow> string \<Rightarrow> string" where
  "path_join a b =
     (if startswith ''/'' b then b
      else if a = [] \<or> last a = CHR ''/'' then a @ b
      else a @ ''/'' @ b)"

definition basename :: "string \<Rightarrow> string" where
  "basename p = rev (takeWhile (\<lambda>c. c \<noteq> CHR ''/'') (rev p))"

text \<open>\<open>str.splitlines\<close>: the first argument is the line read so far, reversed.\<close>

definition is_linebreak :: "char \<Rightarrow> bool" where
  "is_linebreak c = (c \<in> set [CHR 0x0A, CHR 0x0B, CHR 0x0C, CHR 0x0D,
     CHR 0x1C, CHR 0x1D, CHR 0x1E, CHR 0x85])"

fun splitlines_from :: "string \<Rightarrow> string \<Rightarrow> string list" where
  "splitlines_from cur [] = (if cur = [] then [] else [rev cur])"
| "splitlines_from cur [c] =
     (if is_linebreak c then [rev cur] else [rev (c # cur)])"
| "splitlines_from cur (c # d # cs) =
     (if c = CHR 0x0D \<and> d = CHR 0x0A then rev cur # splitlines_from [] cs
      else if is_linebreak c then rev cur # splitlines_from [] (d # cs)
      else splitlines_from (c # cur) (d # cs))"

definition splitlines :: "string \<Rightarrow> string list" where
  "splitlines s = splitlines_from [] s"

subsection \<open>Logging, printing, processes\<close>

definition emit :: "event \<Rightarrow> 'w st \<Rightarrow> 'w st" where
  "emit e s = s\<lparr>trace := trace s @ [e]\<rparr>"

text \<open>The logger's level is DEBUG when verbose and INFO otherwise (\<open>setup_logging\<close>).\<close>

definition logger :: "level \<Rightarrow> string \<Rightarrow> 'w st \<Rightarrow> 'w st" where
  "logger lvl msg s = (if lvl = DEBUG \<and> \<not> verbose s then s else emit (Log lvl msg) s)"

definition print :: "string \<Rightarrow> 'w st \<Rightarrow> 'w st" where
  "print msg s = emit (Print msg) s"

text \<open>
  \<open>subprocess.run(cmd, timeout=...)\<close>: with a timeout a child that runs longer is
  killed and \<open>TimeoutExpired\<close> is raised; without one the call waits for the child
  however long it takes.
\<close>

definition outcome :: "behaviour \<Rightarrow> string list \<Rightarrow> nat option \<Rightarrow> completed res" where
  "outcome b cmd timeout =
     (case b of
        CannotLaunch msg \<Rightarrow> Raise (OSError msg)
      | NeverExits \<Rightarrow> (case timeout of None \<Rightarrow> Diverge | Some t \<Rightarrow> Raise (TimeoutExpired cmd t))
      | Exits d c \<Rightarrow>
          (case timeout of
             None \<Rightarrow> Ret c
           | Some t \<Rightarrow> if t < d then Raise (TimeoutExpired cmd t) else Ret c))"

definition subprocess_run ::
  "'w os \<Rightarrow> string list \<Rightarrow> nat option \<Rightarrow> 'w st \<Rightarrow> completed res \<times> 'w st" where
  "subprocess_run env cmd timeout s =
     (case os_process env (world s) cmd of
        (b, w') \<Rightarrow>
          (outcome b cmd timeout,
           emit (Spawn cmd timeout (outcome b cmd timeout)) (s\<lparr>world := w'\<rparr>)))"

text \<open>Sequencing: a raise or a call that never returns ends what follows.\<close>

definition bind :: "'a res \<times> 's \<Rightarrow> ('a \<Rightarrow> 's \<Rightarrow> 'b res \<times> 's) \<Rightarrow> 'b res \<times> 's" where
  "bind m f =
     (case m of
        (Ret a, s) \<Rightarrow> f a s
      | (Raise e, s) \<Rightarrow> (Raise e, s)
      | (Diverge, s) \<Rightarrow> (Diverge, s))"

subsection \<open>The class \<open>APKReforge\<close>\<close>

definition get_android_debug_keystore_path :: "'w os \<Rightarrow> 'w \<Rightarrow> string" where
  "get_android_debug_keystore_path env w =
     path_join (path_join (os_home env w) ''.android'') ''debug.keystore''"

definition init :: "'w os \<Rightarrow> bool \<Rightarrow> 'w \<Rightarrow> 'w st" where
  "init env v w =
     \<lparr>world = w, trace = [], temp_dir = None, verbose = v,
      android_debug_keystore = get_android_debug_keystore_path env w\<rparr>"

definition tools :: "string list" where
  "tools = [''apktool'', ''zipalign'', ''apksigner'', ''adb'', ''keytool'']"

fun check_tools ::
  "'w os \<Rightarrow> string list \<Rightarrow> (string \<times> bool) list \<Rightarrow> 'w st \<Rightarrow> (string \<times> bool) list \<times> 'w st" where
  "check_tools env [] deps s = (deps, s)"
| "check_tools env (tool # rest) deps s =
     (case os_which env (world s) tool of
        Some path \<Rightarrow>
          if path \<noteq> [] then
            check_tools env rest (AList.update tool True deps)
              (if verbose s then
                 (let s1 = logger DEBUG (tool @ '' found at '' @ path) s
                  in if \<not> contains ''/usr/bin/'' path
                     then logger WARNING
                            (YELLOW @ tool @ '' is not in /usr/bin/: '' @ path @ RESET) s1
                     else s1)
               else s)
          else
            check_tools env rest (AList.update tool False deps)
              (logger ERROR (RED @ ''Missing tool: '' @ tool @ RESET) s)
      | None \<Rightarrow>
          check_tools env rest (AList.update tool False deps)
            (logger ERROR (RED @ ''Missing tool: '' @ tool @ RESET) s))"

definition check_dependencies :: "'w os \<Rightarrow> 'w st \<Rightarrow> (string \<times> bool) list \<times> 'w st" where
  "check_dependencies env s = check_tools env tools [] s"

definition run_command :: "'w os \<Rightarrow> string list \<Rightarrow> string \<Rightarrow> 'w st \<Rightarrow> bool res \<times> 'w st" where
  "run_command env cmd error_msg s0 =
     (case subprocess_run env cmd (Some 120) (logger DEBUG (''$ '' @ join '' '' cmd) s0) of
        (Ret result, s1) \<Rightarrow>
          (let s2 = (if verbose s1 then
                       (let sa = (if stdout result \<noteq> []
                                  then logger DEBUG (''STDOUT:'' @ NL @ stdout result) s1 else s1)
                        in if stderr result \<noteq> []
                           then logger DEBUG (''STDERR:'' @ NL @ stderr result) sa else sa)
                     else s1)
           in if returncode result \<noteq> 0 then
                (let s3 = logger ERROR
                            (RED @ error_msg @ '' (code '' @ str_int (returncode result) @ '')''
                               @ RESET) s2
                 in (Ret False,
                     if stderr result \<noteq> [] then logger ERROR (strip (stderr result)) s3 else s3))
              else (Ret True, s2))
      | (Raise (TimeoutExpired c t), s1) \<Rightarrow>
          (Ret False,
           logger ERROR
             (RED @ ''Timeout exceeded: '' @ str_exn env (TimeoutExpired c t) @ RESET) s1)
      | (Raise (OSError msg), s1) \<Rightarrow>
          (Ret False,
           logger ERROR (RED @ ''Unexpected error: '' @ str_exn env (OSError msg) @ RESET) s1)
      | (Diverge, s1) \<Rightarrow> (Diverge, s1))"

text \<open>
  \<open>re.search(r'targetSdkVersion\s*=\s*"(\d+)"', content)\<close>: \<open>match_here\<close> tries the
  pattern at the start of the text and gives group 1. The characters that follow each
  starred class are outside the class, so the longest run is the only one that can
  match.
\<close>

definition match_here :: "string \<Rightarrow> string option" where
  "match_here s =
     (if startswith ''targetSdkVersion'' s then
        (case dropWhile is_space (drop 16 s) of
           c1 # s2 \<Rightarrow>
             if c1 = CHR ''='' then
               (case dropWhile is_space s2 of
                  c2 # s4 \<Rightarrow>
                    if c2 = CHR 0x22 then
                      (case dropWhile is_digit s4 of
                         c3 # _ \<Rightarrow>
                           if c3 = CHR 0x22 \<and> takeWhile is_digit s4 \<noteq> []
                           then Some (takeWhile is_digit s4) else None
                       | [] \<Rightarrow> None)
                    else None
                | [] \<Rightarrow> None)
             else None
         | [] \<Rightarrow> None)
      else None)"

fun re_search :: "string \<Rightarrow> string option" where
  "re_search [] = match_here []"
| "re_search (c # cs) =
     (case match_here (c # cs) of Some g \<Rightarrow> Some g | None \<Rightarrow> re_search cs)"

definition detect_high_sdk :: "'w os \<Rightarrow> string \<Rightarrow> 'w st \<Rightarrow> bool" where
  "detect_high_sdk env input_dir s =
     (let manifest = path_join input_dir ''AndroidManifest.xml''
      in if \<not> os_exists env (world s) manifest then False
         else (case os_read env (world s) manifest of
                 Inl e \<Rightarrow> False
               | Inr content \<Rightarrow>
                   (case re_search content of
                      Some g \<Rightarrow>
                        (case py_int env g of Some n \<Rightarrow> n \<ge> 34 | None \<Rightarrow> False)
                    | None \<Rightarrow> False)))"

definition rebuild_cmd :: "string \<Rightarrow> string \<Rightarrow> bool \<Rightarrow> string list" where
  "rebuild_cmd input_dir output_apk aapt2 =
     filter (\<lambda>c. c \<noteq> [])
       [''apktool'', ''b'', ''-o'', output_apk, if aapt2 then ''--use-aapt2'' else [], input_dir]"

definition rebuild_fallback_cmd :: "string \<Rightarrow> string \<Rightarrow> string list" where
  "rebuild_fallback_cmd input_dir output_apk = [''apktool'', ''b'', input_dir, ''-o'', output_apk]"

definition rebuild_apk :: "'w os \<Rightarrow> string \<Rightarrow> string \<Rightarrow> 'w st \<Rightarrow> bool res \<times> 'w st" where
  "rebuild_apk env input_dir output_apk s0 =
     (let s1 = logger INFO (NL @ BOLD @ BLUE @ ''[+] PHASE 1: Rebuilding APK'' @ RESET) s0
      in if \<not> os_exists env (world s1) (path_join input_dir ''AndroidManifest.xml'') then
           (Ret False,
            logger ERROR (RED @ ''Directory does not contain AndroidManifest.xml'' @ RESET) s1)
         else
           bind (run_command env
                   (rebuild_cmd input_dir output_apk (detect_high_sdk env input_dir s1))
                   ''Error in apktool'' s1)
             (\<lambda>ok s2.
                if \<not> ok then
                  run_command env (rebuild_fallback_cmd input_dir output_apk) ''Error in rebuild''
                    (logger WARNING (YELLOW @ ''Trying without AAPT2...'' @ RESET) s2)
                else
                  (Ret True,
                   logger INFO (GREEN @ ''Rebuilded APK: '' @ basename output_apk @ RESET) s2)))"

definition align_cmd :: "string \<Rightarrow> string \<Rightarrow> string list" where
  "align_cmd input_apk output_apk = [''zipalign'', ''-v'', ''4'', input_apk, output_apk]"

definition align_check_cmd :: "string \<Rightarrow> string list" where
  "align_check_cmd output_apk = [''zipalign'', ''-c'', ''4'', output_apk]"

definition align_apk :: "'w os \<Rightarrow> string \<Rightarrow> string \<Rightarrow> 'w st \<Rightarrow> bool res \<times> 'w st" where
  "align_apk env input_apk output_apk s0 =
     bind (run_command env (align_cmd input_apk output_apk) ''Error in zipalign''
             (logger INFO (NL @ BOLD @ BLUE @ ''[+] PHASE 2: Aligning APK'' @ RESET) s0))
       (\<lambda>ok s1.
          if \<not> ok then (Ret False, s1)
          else
            bind (run_command env (align_check_cmd output_apk) ''Incorrect alignment''
                    (logger INFO (CYAN @ ''Checking alignment...'' @ RESET) s1))
              (\<lambda>ok2 s2.
                 if ok2 then
                   (Ret True, logger INFO (GREEN @ ''Alignment verified correctly'' @ RESET) s2)
                 else (Ret False, s2)))"

definition keytool_cmd :: "string \<Rightarrow> string list" where
  "keytool_cmd keystore_path =
     [''keytool'', ''-genkey'', ''-v'',
      ''-keystore'', keystore_path,
      ''-alias'', ''androiddebugkey'',
      ''-keyalg'', ''RSA'',
      ''-keysize'', ''2048'',
      ''-validity'', ''10000'',
      ''-storepass'', ''android'',
      ''-keypass'', ''android'',
      ''-dname'', ''CN=Android Debug,O=Android,C=US'']"

definition get_keystore :: "'w os \<Rightarrow> 'w st \<Rightarrow> string option res \<times> 'w st" where
  "get_keystore env s0 =
     (if os_exists env (world s0) (android_debug_keystore s0) then
        (Ret (Some (android_debug_keystore s0)), s0)
      else
        (let s1 = logger INFO (YELLOW @ ''Creating temporary keystore...'' @ RESET) s0;
             keystore_path = path_join (os_gettempdir env (world s1)) ''apkreforge.keystore''
         in bind (run_command env (keytool_cmd keystore_path) ''Error creating keystore'' s1)
              (\<lambda>ok s2.
                 if ok then (Ret (Some keystore_path), s2)
                 else (Ret None, logger ERROR (RED @ ''Could not create keystore'' @ RESET) s2))))"

definition sign_cmd :: "string \<Rightarrow> string \<Rightarrow> string \<Rightarrow> string list" where
  "sign_cmd keystore_path output_apk input_apk =
     [''apksigner'', ''sign'',
      ''--ks'', keystore_path,
      ''--ks-pass'', ''pass:android'',
      ''--ks-key-alias'', ''androiddebugkey'',
      ''--key-pass'', ''pass:android'',
      ''--out'', output_apk,
      input_apk]"

definition verify_cmd :: "string \<Rightarrow> string list" where
  "verify_cmd output_apk = [''apksigner'', ''verify'', output_apk]"

text \<open>A string option is true in a condition when it is a non-empty string.\<close>

definition truthy :: "string option \<Rightarrow> bool" where
  "truthy p = (case p of None \<Rightarrow> False | Some x \<Rightarrow> x \<noteq> [])"

text \<open>\<open>keystore_path or self.get_keystore()\<close>.\<close>

definition keystore_or_get ::
  "'w os \<Rightarrow> string option \<Rightarrow> 'w st \<Rightarrow> string option res \<times> 'w st" where
  "keystore_or_get env keystore_path s =
     (if truthy keystore_path then (Ret keystore_path, s) else get_keystore env s)"

definition sign_apk ::
  "'w os \<Rightarrow> string \<Rightarrow> string \<Rightarrow> string option \<Rightarrow> 'w st \<Rightarrow> bool res \<times> 'w st" where
  "sign_apk env input_apk output_apk keystore_path s0 =
     (let s1 = logger INFO (NL @ BOLD @ BLUE @ ''[+] PHASE 3: Signing APK'' @ RESET) s0
      in bind (keystore_or_get env keystore_path s1)
           (\<lambda>ks s2.
              if \<not> truthy ks then (Ret False, s2)
              else
                bind (run_command env (sign_cmd (the ks) output_apk input_apk) ''Error in signature''
                        (logger INFO (CYAN @ ''Using keystore: '' @ basename (the ks) @ RESET) s2))
                  (\<lambda>ok s3.
                     if \<not> ok then (Ret False, s3)
                     else
                       bind (run_command env (verify_cmd output_apk) ''Failed signature verification''
                               (logger INFO (CYAN @ ''Verifying signature...'' @ RESET) s3))
                         (\<lambda>ok2 s4.
                            if ok2 then
                              (Ret True,
                               logger INFO (GREEN @ ''Signature verified correctly'' @ RESET) s4)
                            else (Ret False, s4)))))"

definition install_cmd :: "string \<Rightarrow> string \<Rightarrow> string list" where
  "install_cmd device apk_path = [''adb'', ''-s'', device, ''install'', ''-r'', apk_path]"

fun install_loop ::
  "'w os \<Rightarrow> string \<Rightarrow> string list \<Rightarrow> bool \<Rightarrow> 'w st \<Rightarrow> bool res \<times> 'w st" where
  "install_loop env apk_path [] success s = (Ret success, s)"
| "install_loop env apk_path (device # rest) success s =
     (case run_command env (install_cmd device apk_path) (''Error installing in '' @ device)
             (logger INFO (CYAN @ ''Installing in '' @ device @ ''...'' @ RESET) s) of
        (Ret ok, s1) \<Rightarrow> install_loop env apk_path rest (if \<not> ok then False else success) s1
      | (Raise e, s1) \<Rightarrow> (Raise e, s1)
      | (Diverge, s1) \<Rightarrow> (Diverge, s1))"

definition active_devices_of :: "string list \<Rightarrow> string list" where
  "active_devices_of devices =
     map (takeWhile (\<lambda>c. c \<noteq> TAB)) (filter (contains (TAB # ''device'')) (drop 1 devices))"

definition install_apk :: "'w os \<Rightarrow> string \<Rightarrow> 'w st \<Rightarrow> bool res \<times> 'w st" where
  "install_apk env apk_path s0 =
     bind (subprocess_run env [''adb'', ''devices''] None
             (logger INFO (CYAN @ ''Searching for devices...'' @ RESET)
                (logger INFO (NL @ BOLD @ BLUE @ ''[+] PHASE 4: Installing APK'' @ RESET) s0)))
       (\<lambda>result s1.
          let active_devices = active_devices_of (splitlines (stdout result))
          in if active_devices = [] then
               (Ret False, logger ERROR (RED @ ''No connected devices found'' @ RESET) s1)
             else
               install_loop env apk_path active_devices True
                 (logger INFO
                    (GREEN @ ''Devices detected: '' @ join '', '' active_devices @ RESET) s1))"

definition cleanup :: "'w os \<Rightarrow> 'w st \<Rightarrow> 'w st" where
  "cleanup env s =
     (if truthy (temp_dir s) \<and> os_exists env (world s) (the (temp_dir s)) then
        (case os_rmtree env (world s) (the (temp_dir s)) of
           (None, w') \<Rightarrow>
             logger DEBUG (''Temporary directory deleted: '' @ the (temp_dir s))
               (emit (Rmtree (the (temp_dir s)) None) (s\<lparr>world := w'\<rparr>))
         | (Some e, w') \<Rightarrow>
             logger ERROR (''Error clearing temporary: '' @ str_exn env e)
               (emit (Rmtree (the (temp_dir s)) (Some e)) (s\<lparr>world := w'\<rparr>)))
      else s)"

text \<open>
  \<open>process_apk\<close> in three parts: the lines before \<open>try\<close> (banner, dependency gate,
  \<open>mkdtemp\<close>), the body of \<open>try\<close>, and the whole method with its \<open>except\<close> and
  \<open>finally\<close>. \<open>process_apk_begin\<close> returns \<open>None\<close> where the method returns False at
  the gate, and the new directory otherwise.
\<close>

definition missing_of :: "(string \<times> bool) list \<Rightarrow> string list" where
  "missing_of deps = map fst (filter (\<lambda>(t, v). \<not> v) deps)"

definition banner :: "string \<Rightarrow> string \<Rightarrow> 'w st \<Rightarrow> 'w st" where
  "banner input_dir output_apk s =
     logger INFO (BOLD @ CYAN @ ''< OUTPUT: '' @ output_apk @ RESET)
       (logger INFO (BOLD @ CYAN @ ''> INPUT: '' @ input_dir @ RESET)
          (print (NL @ BOLD @ HEADER @ replicate 50 (CHR ''='') @ RESET)
             (print (BOLD @ RED @ ''RUNNING apkReforge v'' @ version @ RESET)
                (print (BOLD @ RED @ ''Lautaro Villarreal Culic'' @ [CHR 0x27]
                          @ '' - https://lautarovculic.com'' @ RESET)
                   (print (NL @ BOLD @ HEADER @ replicate 50 (CHR ''='') @ RESET) s)))))"

definition process_apk_begin ::
  "'w os \<Rightarrow> string \<Rightarrow> string \<Rightarrow> 'w st \<Rightarrow> string option res \<times> 'w st" where
  "process_apk_begin env input_dir output_apk s0 =
     (case check_dependencies env (banner input_dir output_apk s0) of
        (deps, s1) \<Rightarrow>
          if missing_of deps \<noteq> [] then
            (Ret None,
             logger ERROR
               (RED @ ''[!!!] Missing dependencies: '' @ join '', '' (missing_of deps) @ RESET) s1)
          else
            (case os_mkdtemp env (world s1) ''apkreforge_'' of
               (Inl e, w') \<Rightarrow> (Raise e, emit (Mkdtemp ''apkreforge_'' (Inl e)) (s1\<lparr>world := w'\<rparr>))
             | (Inr d, w') \<Rightarrow>
                 (Ret (Some d),
                  logger DEBUG (''Temporary directory: '' @ d)
                    (emit (Mkdtemp ''apkreforge_'' (Inr d)) (s1\<lparr>world := w', temp_dir := Some d\<rparr>)))))"

text \<open>The loop over the three steps: the first step that fails ends the method.\<close>

fun run_steps ::
  "(string \<times> ('w st \<Rightarrow> bool res \<times> 'w st)) list \<Rightarrow> 'w st \<Rightarrow> bool res \<times> 'w st" where
  "run_steps [] s = (Ret True, s)"
| "run_steps ((error_msg, step) # rest) s =
     (case step s of
        (Ret ok, s1) \<Rightarrow>
          if \<not> ok then (Ret False, logger ERROR (RED @ error_msg @ RESET) s1)
          else run_steps rest s1
      | (Raise e, s1) \<Rightarrow> (Raise e, s1)
      | (Diverge, s1) \<Rightarrow> (Diverge, s1))"

text \<open>
  The end of the body of \<open>try\<close>: the warning when the installation that was asked for
  returned False, and the two closing records.
\<close>

definition process_apk_finish :: "'w os \<Rightarrow> string \<Rightarrow> bool \<Rightarrow> bool \<Rightarrow> 'w st \<Rightarrow> 'w st" where
  "process_apk_finish env output_apk install installed s =
     logger INFO (GREEN @ ''Final APK: '' @ os_abspath env (world s) output_apk @ RESET)
       (logger INFO (NL @ GREEN @ ''[+] PROCESS SUCCESSFULLY COMPLETED!'' @ RESET)
          (if install \<and> \<not> installed
           then logger WARNING (YELLOW @ ''Installation failed, but APK generated'' @ RESET) s
           else s))"

definition process_apk_try ::
  "'w os \<Rightarrow> string \<Rightarrow> string \<Rightarrow> bool \<Rightarrow> string option \<Rightarrow> string \<Rightarrow> 'w st \<Rightarrow> bool res \<times> 'w st" where
  "process_apk_try env input_dir output_apk install keystore d s0 =
     (let rebuilt_apk = path_join d ''unsigned.apk'';
          aligned_apk = path_join d ''aligned.apk''
      in bind (run_steps
                 [(''Failed rebuild'', rebuild_apk env input_dir rebuilt_apk),
                  (''Failed alignment'', align_apk env rebuilt_apk aligned_apk),
                  (''Failed signature'', sign_apk env aligned_apk output_apk keystore)] s0)
           (\<lambda>ok s1.
              if \<not> ok then (Ret False, s1)
              else
                bind (if install then install_apk env output_apk s1 else (Ret True, s1))
                  (\<lambda>installed s2.
                     (Ret True, process_apk_finish env output_apk install installed s2))))"

definition process_apk ::
  "'w os \<Rightarrow> string \<Rightarrow> string \<Rightarrow> bool \<Rightarrow> string option \<Rightarrow> 'w st \<Rightarrow> bool res \<times> 'w st" where
  "process_apk env input_dir output_apk install keystore s0 =
     (case process_apk_begin env input_dir output_apk s0 of
        (Ret None, s1) \<Rightarrow> (Ret False, s1)
      | (Ret (Some d), s1) \<Rightarrow>
          (case process_apk_try env input_dir output_apk install keystore d s1 of
             (Ret b, s2) \<Rightarrow> (Ret b, cleanup env s2)
           | (Raise e, s2) \<Rightarrow>
               (Ret False,
                cleanup env (logger ERROR (RED @ ''CRITICAL ERROR: '' @ str_exn env e @ RESET) s2))
           | (Diverge, s2) \<Rightarrow> (Diverge, s2))
      | (Raise e, s1) \<Rightarrow> (Raise e, s1)
      | (Diverge, s1) \<Rightarrow> (Diverge, s1))"

subsection \<open>Notions used to state the properties\<close>

fun is_log :: "event \<Rightarrow> bool" where
  "is_log (Log l m) = True"
| "is_log (Print m) = True"
| "is_log (Spawn c t r) = False"
| "is_log (Mkdtemp p r) = False"
| "is_log (Rmtree p r) = False"

text \<open>The trace without its log records and prints: what was done to the world.\<close>

definition acts :: "event list \<Rightarrow> event list" where
  "acts tr = filter (\<lambda>e. \<not> is_log e) tr"

text \<open>
  An invocation exits zero when it completes, within its bound, with return code 0.
  \<open>run_result\<close> is what \<open>subprocess.run\<close> gives for a command under the 120 second
  bound of \<open>run_command\<close> in a given world, \<open>world_after\<close> the world the child leaves,
  \<open>cmd_ok\<close> whether that invocation exits zero, and \<open>ran\<close> the state after
  \<open>run_command\<close>.
\<close>

definition exit_zero :: "completed res \<Rightarrow> bool" where
  "exit_zero r = (case r of Ret c \<Rightarrow> returncode c = 0 | Raise e \<Rightarrow> False | Diverge \<Rightarrow> False)"

definition run_result :: "'w os \<Rightarrow> 'w \<Rightarrow> string list \<Rightarrow> completed res" where
  "run_result env w cmd = outcome (fst (os_process env w cmd)) cmd (Some 120)"

definition world_after :: "'w os \<Rightarrow> 'w \<Rightarrow> string list \<Rightarrow> 'w" where
  "world_after env w cmd = snd (os_process env w cmd)"

definition cmd_ok :: "'w os \<Rightarrow> 'w \<Rightarrow> string list \<Rightarrow> bool" where
  "cmd_ok env w cmd = exit_zero (run_result env w cmd)"

definition ran :: "'w os \<Rightarrow> string list \<Rightarrow> string \<Rightarrow> 'w st \<Rightarrow> 'w st" where
  "ran env cmd msg s = snd (run_command env cmd msg s)"

text \<open>The path of the generated keystore, and the keystore the signing phase ends up with.\<close>

definition temp_keystore :: "'w os \<Rightarrow> 'w \<Rightarrow> string" where
  "temp_keystore env w = path_join (os_gettempdir env w) ''apkreforge.keystore''"

definition resolved_ks :: "'w os \<Rightarrow> string option \<Rightarrow> 'w st \<Rightarrow> string option" where
  "resolved_ks env ks s =
     (if truthy ks then ks
      else if os_exists env (world s) (android_debug_keystore s)
      then Some (android_debug_keystore s)
      else if cmd_ok env (world s) (keytool_cmd (temp_keystore env (world s)))
      then Some (temp_keystore env (world s)) else None)"

text \<open>
  The results of the install invocations for a list of devices, one after the other, each
  in the world the one before left; the events they leave in the trace; and the result of
  the call that lists the devices, which has no bound.
\<close>

fun install_results :: "'w os \<Rightarrow> string \<Rightarrow> string list \<Rightarrow> 'w \<Rightarrow> completed res list" where
  "install_results env apk [] w = []"
| "install_results env apk (d # ds) w =
     run_result env w (install_cmd d apk) #
     install_results env apk ds (world_after env w (install_cmd d apk))"

definition install_events :: "'w os \<Rightarrow> string \<Rightarrow> string list \<Rightarrow> 'w \<Rightarrow> event list" where
  "install_events env apk ds w =
     map (\<lambda>(d, r). Spawn (install_cmd d apk) (Some 120) r) (zip ds (install_results env apk ds w))"

definition enum_result :: "'w os \<Rightarrow> 'w \<Rightarrow> completed res" where
  "enum_result env w =
     outcome (fst (os_process env w [''adb'', ''devices''])) [''adb'', ''devices''] None"

text \<open>A tool is present when \<open>shutil.which\<close> gives a non-empty path.\<close>

definition present :: "'w os \<Rightarrow> 'w \<Rightarrow> string \<Rightarrow> bool" where
  "present env w t = truthy (os_which env w t)"

fun is_rmtree :: "event \<Rightarrow> bool" where
  "is_rmtree (Rmtree p r) = True"
| "is_rmtree (Print m) = False"
| "is_rmtree (Log l m) = False"
| "is_rmtree (Spawn c t r) = False"
| "is_rmtree (Mkdtemp p r) = False"

fun is_apktool :: "event \<Rightarrow> bool" where
  "is_apktool (Spawn c t r) = (take 1 c = [''apktool''])"
| "is_apktool (Print m) = False"
| "is_apktool (Log l m) = False"
| "is_apktool (Mkdtemp p r) = False"
| "is_apktool (Rmtree p r) = False"

definition rmtrees :: "event list \<Rightarrow> event list" where
  "rmtrees tr = filter is_rmtree tr"

definition apktool_runs :: "event list \<Rightarrow> nat" where
  "apktool_runs tr = length (filter is_apktool tr)"

text \<open>What a phase leaves alone: the object's fields and the removals done so far.\<close>

definition keeps :: "'w st \<Rightarrow> 'w st \<Rightarrow> bool" where
  "keeps s s' =
     (temp_dir s' = temp_dir s \<and> verbose s' = verbose s \<and>
      android_debug_keystore s' = android_debug_keystore s \<and>
      rmtrees (trace s') = rmtrees (trace s))"

definition missing_tools :: "'w os \<Rightarrow> 'w \<Rightarrow> string list" where
  "missing_tools env w = filter (\<lambda>t. \<not> present env w t) tools"

definition checked :: "'w os \<Rightarrow> string \<Rightarrow> string \<Rightarrow> 'w st \<Rightarrow> 'w st" where
  "checked env i o' s = snd (check_dependencies env (banner i o' s))"

text \<open>
  A concrete world on which runs are evaluated: the file system is an association list
  from paths to contents; all five tools are on the path unless listed as absent; by
  default every tool exits 0 and creates its output file, the key generation tool fails
  when the keystore is already there, and \<open>adb devices\<close> lists A and C as
  \<open>device\<close> and B as \<open>offline\<close>. An override replaces the behaviour of
  chosen commands.
\<close>

type_synonym fs = "(string \<times> string) list"

definition touch :: "string \<Rightarrow> fs \<Rightarrow> fs" where
  "touch p w = AList.update p [] w"

definition finished :: "int \<Rightarrow> string \<Rightarrow> behaviour" where
  "finished rc out =
     Exits 1 \<lparr>returncode = rc, stdout = out, stderr = (if rc = 0 then [] else ''failed'')\<rparr>"

definition listing :: "(string \<times> string) list \<Rightarrow> string" where
  "listing ts = ''List of devices attached'' @ NL @ concat (map (\<lambda>(i, st). i @ [TAB] @ st @ NL) ts) @ NL"

definition toolchain :: "string list \<Rightarrow> fs \<Rightarrow> behaviour \<times> fs" where
  "toolchain cmd w =
     (if take 3 cmd = [''apktool'', ''b'', ''-o''] then (finished 0 [], touch (cmd ! 3) w)
      else if take 2 cmd = [''apktool'', ''b''] then (finished 0 [], touch (cmd ! 4) w)
      else if take 2 cmd = [''zipalign'', ''-v''] then (finished 0 [], touch (cmd ! 4) w)
      else if take 2 cmd = [''zipalign'', ''-c''] then (finished 0 [], w)
      else if take 2 cmd = [''apksigner'', ''sign''] then (finished 0 [], touch (cmd ! 11) w)
      else if take 2 cmd = [''apksigner'', ''verify''] then (finished 0 [], w)
      else if take 1 cmd = [''keytool''] then
        (if cmd ! 4 \<in> set (map fst w) then (finished 1 [], w)
         else (finished 0 [], touch (cmd ! 4) w))
      else if cmd = [''adb'', ''devices''] then
        (finished 0 (listing [(''A'', ''device''), (''B'', ''offline''), (''C'', ''device'')]), w)
      else if take 1 cmd = [''adb''] then (finished 0 ''Success'', w)
      else (CannotLaunch ''No such file or directory'', w))"

definition sim ::
  "string list \<Rightarrow> (string list \<Rightarrow> fs \<Rightarrow> (behaviour \<times> fs) option) \<Rightarrow> fs os" where
  "sim absent override =
     \<lparr>os_which = (\<lambda>w t. if t \<in> set absent then None else Some (''/usr/bin/'' @ t)),
      os_exists = (\<lambda>w p. p \<in> set (map fst w)),
      os_read = (\<lambda>w p. case map_of w p of None \<Rightarrow> Inl (OSError ''No such file'') | Some c \<Rightarrow> Inr c),
      os_home = (\<lambda>w. ''/home/dev''),
      os_gettempdir = (\<lambda>w. ''/tmp''),
      os_abspath = (\<lambda>w p. p),
      os_mkdtemp = (\<lambda>w prefix. (Inr (''/tmp/'' @ prefix @ ''k3x9''), touch (''/tmp/'' @ prefix @ ''k3x9'') w)),
      os_rmtree = (\<lambda>w d. (None, filter (\<lambda>(p, c). \<not> startswith d p) w)),
      os_process = (\<lambda>w cmd. case override cmd w of Some r \<Rightarrow> r | None \<Rightarrow> toolchain cmd w),
      py_repr = (\<lambda>s. [CHR 0x27] @ s @ [CHR 0x27]),
      py_int_max_str_digits = 4300\<rparr>"

definition project :: "string \<Rightarrow> fs" where
  "project sdk =
     [(''/work/app'', []),
      (''/work/app/AndroidManifest.xml'',
       ''<uses-sdk android:targetSdkVersion='' @ [CHR 0x22] @ sdk @ [CHR 0x22] @ '' />'')]"

definition no_override :: "string list \<Rightarrow> fs \<Rightarrow> (behaviour \<times> fs) option" where
  "no_override cmd w = None"

definition failing :: "string list \<Rightarrow> string list \<Rightarrow> fs \<Rightarrow> (behaviour \<times> fs) option" where
  "failing pre cmd w =
     (if take (length pre) cmd = pre then Some (finished 1 [], snd (toolchain cmd w)) else None)"

text \<open>
  The two intermediate files of \<open>process_apk\<close> and the states after each of the first
  three phases.
\<close>

definition rebuilt_apk :: "string \<Rightarrow> string" where
  "rebuilt_apk d = path_join d ''unsigned.apk''"

definition aligned_apk :: "string \<Rightarrow> string" where
  "aligned_apk d = path_join d ''aligned.apk''"

definition after_rebuild :: "'w os \<Rightarrow> string \<Rightarrow> string \<Rightarrow> 'w st \<Rightarrow> 'w st" where
  "after_rebuild env i d s = snd (rebuild_apk env i (rebuilt_apk d) s)"

definition after_align :: "'w os \<Rightarrow> string \<Rightarrow> string \<Rightarrow> 'w st \<Rightarrow> 'w st" where
  "after_align env i d s =
     snd (align_apk env (rebuilt_apk d) (aligned_apk d) (after_rebuild env i d s))"

definition after_sign ::
  "'w os \<Rightarrow> string \<Rightarrow> string \<Rightarrow> string option \<Rightarrow> string \<Rightarrow> 'w st \<Rightarrow> 'w st" where
  "after_sign env i o' ks d s = snd (sign_apk env (aligned_apk d) o' ks (after_align env i d s))"

text \<open>Rebuild, align and sign each returned True, started from state \<open>s\<close> in directory \<open>d\<close>.\<close>

definition phases_ok ::
  "'w os \<Rightarrow> string \<Rightarrow> string \<Rightarrow> string option \<Rightarrow> string \<Rightarrow> 'w st \<Rightarrow> bool" where
  "phases_ok env i o' ks d s =
     (fst (rebuild_apk env i (rebuilt_apk d) s) = Ret True \<and>
      fst (align_apk env (rebuilt_apk d) (aligned_apk d) (after_rebuild env i d s)) = Ret True \<and>
      fst (sign_apk env (aligned_apk d) o' ks (after_align env i d s)) = Ret True)"

definition stage :: "fs" where
  "stage = touch ''/tmp/apkreforge_k3x9'' (project ''34'')"

definition built :: fs where
  "built = touch ''/tmp/apkreforge_k3x9/aligned.apk''
             (touch ''/tmp/apkreforge_k3x9/unsigned.apk'' stage)"

definition signed :: fs where
  "signed = touch ''/work/out.apk'' (touch ''/tmp/apkreforge.keystore'' built)"

definition adb_unlaunchable :: "string list \<Rightarrow> fs \<Rightarrow> (behaviour \<times> fs) option" where
  "adb_unlaunchable cmd w =
     (if take 1 cmd = [''adb''] then Some (CannotLaunch ''[Errno 13] Permission denied: adb'', w)
      else None)"

definition adb_hangs :: "string list \<Rightarrow> fs \<Rightarrow> (behaviour \<times> fs) option" where
  "adb_hangs cmd w = (if take 1 cmd = [''adb''] then Some (NeverExits, w) else None)"

definition adb_lists ::
  "(string \<times> string) list \<Rightarrow> string list \<Rightarrow> fs \<Rightarrow> (behaviour \<times> fs) option" where
  "adb_lists ts cmd w =
     (if cmd = [''adb'', ''devices''] then Some (finished 0 (listing ts), w) else None)"

definition tmp_cleaner :: "string list \<Rightarrow> fs \<Rightarrow> (behaviour \<times> fs) option" where
  "tmp_cleaner cmd w =
     (if take 1 cmd = [''apktool'']
      then Some (finished 1 [], filter (\<lambda>(p, c). \<not> startswith ''/tmp/'' p) w)
      else None)"

definition leftover :: fs where
  "leftover = touch ''/work/out.apk'' (touch ''/tmp/apkreforge.keystore'' (project ''34''))"

definition restage :: fs where
  "restage = touch ''/tmp/apkreforge_k3x9/aligned.apk''
               (touch ''/tmp/apkreforge_k3x9/unsigned.apk''
                  (touch ''/tmp/apkreforge_k3x9'' leftover))"

section \<open>Properties\<close>

lemma logger_fields [simp]:
  "world (logger l m s) = world s"
  "temp_dir (logger l m s) = temp_dir s"
  "verbose (logger l m s) = verbose s"
  "android_debug_keystore (logger l m s) = android_debug_keystore s"
  by (simp_all add: logger_def emit_def)

lemma acts_logger [simp]: "acts (trace (logger l m s)) = acts (trace s)"
  by (simp add: logger_def emit_def acts_def)

lemma print_fields [simp]:
  "world (print m s) = world s"
  "temp_dir (print m s) = temp_dir s"
  "verbose (print m s) = verbose s"
  "android_debug_keystore (print m s) = android_debug_keystore s"
  "acts (trace (print m s)) = acts (trace s)"
  by (simp_all add: print_def emit_def acts_def)

lemma outcome_timeout_not_Diverge: "outcome b cmd (Some t) \<noteq> Diverge"
  by (simp add: outcome_def split: behaviour.splits)

lemma run_command_eq:
  "run_command env cmd msg s = (Ret (cmd_ok env (world s) cmd), ran env cmd msg s)"
  unfolding ran_def
  by (cases "os_process env (world s) cmd")
     (auto simp: run_command_def subprocess_run_def cmd_ok_def run_result_def exit_zero_def
        outcome_def Let_def
        split: behaviour.splits res.splits exn.splits if_splits prod.splits)

lemma ran_fields [simp]:
  "world (ran env cmd msg s) = world_after env (world s) cmd"
  "temp_dir (ran env cmd msg s) = temp_dir s"
  "verbose (ran env cmd msg s) = verbose s"
  "android_debug_keystore (ran env cmd msg s) = android_debug_keystore s"
  unfolding ran_def
  by (cases "os_process env (world s) cmd";
      auto simp: run_command_def subprocess_run_def world_after_def emit_def
        outcome_def Let_def
        split: behaviour.splits res.splits exn.splits if_splits prod.splits)+

lemma acts_ran [simp]:
  "acts (trace (ran env cmd msg s)) =
     acts (trace s) @ [Spawn cmd (Some 120) (run_result env (world s) cmd)]"
  unfolding ran_def
  by (cases "os_process env (world s) cmd")
     (auto simp: run_command_def subprocess_run_def run_result_def emit_def acts_def
        outcome_def Let_def logger_def
        split: behaviour.splits res.splits exn.splits if_splits prod.splits)

lemma bind_Ret [simp]: "bind (Ret a, s) f = f a s"
  by (simp add: bind_def)

lemma fst_align_apk:
  "fst (align_apk env i o' s) =
     Ret (cmd_ok env (world s) (align_cmd i o') \<and>
          cmd_ok env (world_after env (world s) (align_cmd i o')) (align_check_cmd o'))"
  by (simp add: align_apk_def run_command_eq)

lemma acts_align_apk:
  "acts (trace (snd (align_apk env i o' s))) =
     acts (trace s) @
       Spawn (align_cmd i o') (Some 120) (run_result env (world s) (align_cmd i o')) #
       (if cmd_ok env (world s) (align_cmd i o')
        then [Spawn (align_check_cmd o') (Some 120)
                (run_result env (world_after env (world s) (align_cmd i o')) (align_check_cmd o'))]
        else [])"
  by (simp add: align_apk_def run_command_eq)

lemma align_apk_fields [simp]:
  "temp_dir (snd (align_apk env i o' s)) = temp_dir s"
  "verbose (snd (align_apk env i o' s)) = verbose s"
  "android_debug_keystore (snd (align_apk env i o' s)) = android_debug_keystore s"
  by (simp_all add: align_apk_def run_command_eq)

lemma detect_high_sdk_world:
  "world s' = world s \<Longrightarrow> detect_high_sdk env i s' = detect_high_sdk env i s"
  by (simp add: detect_high_sdk_def)

lemma fst_rebuild_apk:
  "fst (rebuild_apk env i o' s) =
     Ret (os_exists env (world s) (path_join i ''AndroidManifest.xml'') \<and>
          (cmd_ok env (world s) (rebuild_cmd i o' (detect_high_sdk env i s)) \<or>
           cmd_ok env (world_after env (world s) (rebuild_cmd i o' (detect_high_sdk env i s)))
             (rebuild_fallback_cmd i o')))"
  by (simp add: rebuild_apk_def run_command_eq Let_def
        detect_high_sdk_world [of "logger l m s" s for l m])

lemma acts_rebuild_apk:
  "acts (trace (snd (rebuild_apk env i o' s))) =
     acts (trace s) @
       (if os_exists env (world s) (path_join i ''AndroidManifest.xml'') then
          Spawn (rebuild_cmd i o' (detect_high_sdk env i s)) (Some 120)
            (run_result env (world s) (rebuild_cmd i o' (detect_high_sdk env i s))) #
          (if cmd_ok env (world s) (rebuild_cmd i o' (detect_high_sdk env i s)) then []
           else [Spawn (rebuild_fallback_cmd i o') (Some 120)
                   (run_result env
                      (world_after env (world s) (rebuild_cmd i o' (detect_high_sdk env i s)))
                      (rebuild_fallback_cmd i o'))])
        else [])"
  by (simp add: rebuild_apk_def run_command_eq Let_def
        detect_high_sdk_world [of "logger l m s" s for l m])

lemma rebuild_apk_fields [simp]:
  "temp_dir (snd (rebuild_apk env i o' s)) = temp_dir s"
  "verbose (snd (rebuild_apk env i o' s)) = verbose s"
  "android_debug_keystore (snd (rebuild_apk env i o' s)) = android_debug_keystore s"
  by (simp_all add: rebuild_apk_def run_command_eq Let_def)

lemma get_keystore_eq:
  "get_keystore env s =
     (if os_exists env (world s) (android_debug_keystore s)
      then (Ret (Some (android_debug_keystore s)), s)
      else (Ret (if cmd_ok env (world s) (keytool_cmd (temp_keystore env (world s)))
                 then Some (temp_keystore env (world s)) else None),
            snd (get_keystore env s)))"
  by (simp add: get_keystore_def run_command_eq Let_def temp_keystore_def)

lemma acts_get_keystore:
  "acts (trace (snd (get_keystore env s))) =
     acts (trace s) @
       (if os_exists env (world s) (android_debug_keystore s) then []
        else [Spawn (keytool_cmd (temp_keystore env (world s))) (Some 120)
                (run_result env (world s) (keytool_cmd (temp_keystore env (world s))))])"
  by (simp add: get_keystore_def run_command_eq Let_def temp_keystore_def)

lemma get_keystore_fields [simp]:
  "temp_dir (snd (get_keystore env s)) = temp_dir s"
  "verbose (snd (get_keystore env s)) = verbose s"
  "android_debug_keystore (snd (get_keystore env s)) = android_debug_keystore s"
  by (simp_all add: get_keystore_def run_command_eq Let_def)

lemma world_get_keystore:
  "world (snd (get_keystore env s)) =
     (if os_exists env (world s) (android_debug_keystore s) then world s
      else world_after env (world s) (keytool_cmd (temp_keystore env (world s))))"
  by (simp add: get_keystore_def run_command_eq Let_def temp_keystore_def)

lemma fst_keystore_or_get:
  "fst (keystore_or_get env ks s) = Ret (resolved_ks env ks s)"
  by (simp add: keystore_or_get_def resolved_ks_def get_keystore_def run_command_eq Let_def
        temp_keystore_def)

lemma keystore_or_get_fields [simp]:
  "temp_dir (snd (keystore_or_get env ks s)) = temp_dir s"
  "verbose (snd (keystore_or_get env ks s)) = verbose s"
  "android_debug_keystore (snd (keystore_or_get env ks s)) = android_debug_keystore s"
  by (simp_all add: keystore_or_get_def)

lemma keystore_or_get_logger:
  "resolved_ks env ks (logger l m s) = resolved_ks env ks s"
  "world (snd (keystore_or_get env ks (logger l m s))) = world (snd (keystore_or_get env ks s))"
  by (simp_all add: resolved_ks_def keystore_or_get_def world_get_keystore)

lemma fst_sign_apk:
  "fst (sign_apk env i o' ks s) =
     Ret (truthy (resolved_ks env ks s) \<and>
          cmd_ok env (world (snd (keystore_or_get env ks s)))
            (sign_cmd (the (resolved_ks env ks s)) o' i) \<and>
          cmd_ok env
            (world_after env (world (snd (keystore_or_get env ks s)))
               (sign_cmd (the (resolved_ks env ks s)) o' i))
            (verify_cmd o'))"
proof -
  define s1 where "s1 = logger INFO (NL @ BOLD @ BLUE @ ''[+] PHASE 3: Signing APK'' @ RESET) s"
  obtain s2 where k: "keystore_or_get env ks s1 = (Ret (resolved_ks env ks s), s2)"
    using fst_keystore_or_get [of env ks s1] keystore_or_get_logger(1) [of env ks]
    by (cases "keystore_or_get env ks s1") (simp add: s1_def)
  have w: "world s2 = world (snd (keystore_or_get env ks s))"
    using k keystore_or_get_logger(2) [of env ks INFO _ s]
    by (metis snd_conv s1_def)
  show ?thesis
    unfolding sign_apk_def Let_def s1_def [symmetric]
    by (simp add: k run_command_eq w)
qed

lemma sign_apk_fields [simp]:
  "temp_dir (snd (sign_apk env i o' ks s)) = temp_dir s"
  "verbose (snd (sign_apk env i o' ks s)) = verbose s"
  "android_debug_keystore (snd (sign_apk env i o' ks s)) = android_debug_keystore s"
proof -
  define s1 where "s1 = logger INFO (NL @ BOLD @ BLUE @ ''[+] PHASE 3: Signing APK'' @ RESET) s"
  obtain k s2 where k: "keystore_or_get env ks s1 = (Ret k, s2)"
    using fst_keystore_or_get [of env ks s1] by (cases "keystore_or_get env ks s1") simp
  have s2: "s2 = snd (keystore_or_get env ks s1)"
    by (simp add: k)
  have f: "temp_dir s2 = temp_dir s" "verbose s2 = verbose s"
    "android_debug_keystore s2 = android_debug_keystore s"
    unfolding s2 by (simp_all add: s1_def)
  show "temp_dir (snd (sign_apk env i o' ks s)) = temp_dir s"
    unfolding sign_apk_def Let_def s1_def [symmetric] by (simp add: k run_command_eq f)
  show "verbose (snd (sign_apk env i o' ks s)) = verbose s"
    unfolding sign_apk_def Let_def s1_def [symmetric] by (simp add: k run_command_eq f)
  show "android_debug_keystore (snd (sign_apk env i o' ks s)) = android_debug_keystore s"
    unfolding sign_apk_def Let_def s1_def [symmetric] by (simp add: k run_command_eq f)
qed

lemma acts_keystore_or_get:
  "acts (trace (snd (keystore_or_get env ks s))) =
     acts (trace s) @
       (if truthy ks \<or> os_exists env (world s) (android_debug_keystore s) then []
        else [Spawn (keytool_cmd (temp_keystore env (world s))) (Some 120)
                (run_result env (world s) (keytool_cmd (temp_keystore env (world s))))])"
  by (simp add: keystore_or_get_def acts_get_keystore)

lemma acts_sign_apk:
  "acts (trace (snd (sign_apk env i o' ks s))) =
     acts (trace (snd (keystore_or_get env ks s))) @
       (if truthy (resolved_ks env ks s) then
          Spawn (sign_cmd (the (resolved_ks env ks s)) o' i) (Some 120)
            (run_result env (world (snd (keystore_or_get env ks s)))
               (sign_cmd (the (resolved_ks env ks s)) o' i)) #
          (if cmd_ok env (world (snd (keystore_or_get env ks s)))
                (sign_cmd (the (resolved_ks env ks s)) o' i)
           then [Spawn (verify_cmd o') (Some 120)
                   (run_result env
                      (world_after env (world (snd (keystore_or_get env ks s)))
                         (sign_cmd (the (resolved_ks env ks s)) o' i))
                      (verify_cmd o'))]
           else [])
        else [])"
proof -
  define s1 where "s1 = logger INFO (NL @ BOLD @ BLUE @ ''[+] PHASE 3: Signing APK'' @ RESET) s"
  obtain s2 where k: "keystore_or_get env ks s1 = (Ret (resolved_ks env ks s), s2)"
    using fst_keystore_or_get [of env ks s1] keystore_or_get_logger(1) [of env ks]
    by (cases "keystore_or_get env ks s1") (simp add: s1_def)
  have w: "world s2 = world (snd (keystore_or_get env ks s))"
    using k keystore_or_get_logger(2) [of env ks INFO _ s]
    by (metis snd_conv s1_def)
  have s2: "s2 = snd (keystore_or_get env ks s1)"
    by (simp add: k)
  have a: "acts (trace s2) = acts (trace (snd (keystore_or_get env ks s)))"
    unfolding s2 by (simp add: acts_keystore_or_get s1_def)
  show ?thesis
    unfolding sign_apk_def Let_def s1_def [symmetric]
    by (simp add: k run_command_eq w a)
qed

lemma world_sign_apk:
  "world (snd (sign_apk env i o' ks s)) =
     (if truthy (resolved_ks env ks s) then
        (if cmd_ok env (world (snd (keystore_or_get env ks s)))
              (sign_cmd (the (resolved_ks env ks s)) o' i)
         then world_after env
                (world_after env (world (snd (keystore_or_get env ks s)))
                   (sign_cmd (the (resolved_ks env ks s)) o' i))
                (verify_cmd o')
         else world_after env (world (snd (keystore_or_get env ks s)))
                (sign_cmd (the (resolved_ks env ks s)) o' i))
      else world (snd (keystore_or_get env ks s)))"
proof -
  define s1 where "s1 = logger INFO (NL @ BOLD @ BLUE @ ''[+] PHASE 3: Signing APK'' @ RESET) s"
  obtain s2 where k: "keystore_or_get env ks s1 = (Ret (resolved_ks env ks s), s2)"
    using fst_keystore_or_get [of env ks s1] keystore_or_get_logger(1) [of env ks]
    by (cases "keystore_or_get env ks s1") (simp add: s1_def)
  have w: "world s2 = world (snd (keystore_or_get env ks s))"
    using k keystore_or_get_logger(2) [of env ks INFO _ s]
    by (metis snd_conv s1_def)
  show ?thesis
    unfolding sign_apk_def Let_def s1_def [symmetric]
    by (simp add: k run_command_eq w)
qed

lemma install_events_Nil [simp]: "install_events env apk [] w = []"
  by (simp add: install_events_def)

lemma fst_install_loop:
  "fst (install_loop env apk ds succ s) =
     Ret (succ \<and> list_all exit_zero (install_results env apk ds (world s)))"
  by (induction ds arbitrary: succ s) (auto simp: run_command_eq cmd_ok_def)

lemma acts_install_loop:
  "acts (trace (snd (install_loop env apk ds succ s))) =
     acts (trace s) @ install_events env apk ds (world s)"
  by (induction ds arbitrary: succ s) (auto simp: run_command_eq install_events_def)

lemma install_loop_fields [simp]:
  "temp_dir (snd (install_loop env apk ds succ s)) = temp_dir s"
  "verbose (snd (install_loop env apk ds succ s)) = verbose s"
  "android_debug_keystore (snd (install_loop env apk ds succ s)) = android_debug_keystore s"
  by (induction ds arbitrary: succ s; simp add: run_command_eq)+

lemma subprocess_run_None:
  "subprocess_run env [''adb'', ''devices''] None s =
     (enum_result env (world s),
      emit (Spawn [''adb'', ''devices''] None (enum_result env (world s)))
        (s\<lparr>world := world_after env (world s) [''adb'', ''devices'']\<rparr>))"
  by (simp add: subprocess_run_def enum_result_def world_after_def split: prod.splits)

lemma emit_fields [simp]:
  "world (emit e s) = world s"
  "temp_dir (emit e s) = temp_dir s"
  "verbose (emit e s) = verbose s"
  "android_debug_keystore (emit e s) = android_debug_keystore s"
  "trace (emit e s) = trace s @ [e]"
  by (simp_all add: emit_def)

lemma acts_simps [simp]:
  "acts [] = []"
  "acts (e # es) = (if is_log e then acts es else e # acts es)"
  "acts (xs @ ys) = acts xs @ acts ys"
  by (simp_all add: acts_def)

lemma fst_install_apk:
  "fst (install_apk env apk s) =
     (case enum_result env (world s) of
        Ret result \<Rightarrow>
          Ret (active_devices_of (splitlines (stdout result)) \<noteq> [] \<and>
               list_all exit_zero
                 (install_results env apk (active_devices_of (splitlines (stdout result)))
                    (world_after env (world s) [''adb'', ''devices''])))
      | Raise e \<Rightarrow> Raise e
      | Diverge \<Rightarrow> Diverge)"
  by (simp add: install_apk_def subprocess_run_None bind_def Let_def fst_install_loop
        split: res.splits)

lemma acts_install_apk:
  "acts (trace (snd (install_apk env apk s))) =
     acts (trace s) @
       Spawn [''adb'', ''devices''] None (enum_result env (world s)) #
       (case enum_result env (world s) of
          Ret result \<Rightarrow>
            install_events env apk (active_devices_of (splitlines (stdout result)))
              (world_after env (world s) [''adb'', ''devices''])
        | Raise e \<Rightarrow> []
        | Diverge \<Rightarrow> [])"
  by (simp add: install_apk_def subprocess_run_None bind_def Let_def acts_install_loop
        split: res.splits)

lemma install_apk_fields [simp]:
  "temp_dir (snd (install_apk env apk s)) = temp_dir s"
  "verbose (snd (install_apk env apk s)) = verbose s"
  "android_debug_keystore (snd (install_apk env apk s)) = android_debug_keystore s"
  by (simp_all add: install_apk_def subprocess_run_None bind_def Let_def split: res.splits)

lemma world_install_apk_Ret_empty:
  "enum_result env (world s) = Ret result \<Longrightarrow>
   active_devices_of (splitlines (stdout result)) = [] \<Longrightarrow>
   world (snd (install_apk env apk s)) = world_after env (world s) [''adb'', ''devices'']"
  by (simp add: install_apk_def subprocess_run_None bind_def Let_def)

lemma cleanup_fields [simp]:
  "temp_dir (cleanup env s) = temp_dir s"
  "verbose (cleanup env s) = verbose s"
  "android_debug_keystore (cleanup env s) = android_debug_keystore s"
  by (simp_all add: cleanup_def split: prod.splits option.splits)

lemma acts_cleanup:
  "acts (trace (cleanup env s)) =
     acts (trace s) @
       (if truthy (temp_dir s) \<and> os_exists env (world s) (the (temp_dir s))
        then [Rmtree (the (temp_dir s)) (fst (os_rmtree env (world s) (the (temp_dir s))))]
        else [])"
  by (simp add: cleanup_def split: prod.splits option.splits)

lemma world_cleanup:
  "world (cleanup env s) =
     (if truthy (temp_dir s) \<and> os_exists env (world s) (the (temp_dir s))
      then snd (os_rmtree env (world s) (the (temp_dir s)))
      else world s)"
  by (simp add: cleanup_def split: prod.splits option.splits)

lemma cleanup_failure_logged:
  "truthy (temp_dir s) \<Longrightarrow> os_exists env (world s) (the (temp_dir s)) \<Longrightarrow>
   fst (os_rmtree env (world s) (the (temp_dir s))) = Some e \<Longrightarrow>
   last (trace (cleanup env s)) = Log ERROR (''Error clearing temporary: '' @ str_exn env e)"
  by (cases "os_rmtree env (world s) (the (temp_dir s))")
     (simp add: cleanup_def logger_def)

lemma fst_check_tools:
  "fst (check_tools env ts deps s) =
     foldl (\<lambda>d t. AList.update t (present env (world s) t) d) deps ts"
  by (induction ts arbitrary: deps s)
     (auto simp: present_def truthy_def Let_def split: option.splits)

lemma check_tools_fields [simp]:
  "world (snd (check_tools env ts deps s)) = world s"
  "temp_dir (snd (check_tools env ts deps s)) = temp_dir s"
  "verbose (snd (check_tools env ts deps s)) = verbose s"
  "android_debug_keystore (snd (check_tools env ts deps s)) = android_debug_keystore s"
  "acts (trace (snd (check_tools env ts deps s))) = acts (trace s)"
  by (induction ts arbitrary: deps s; simp add: Let_def split: option.splits)+

lemma fst_check_dependencies:
  "fst (check_dependencies env s) = map (\<lambda>t. (t, present env (world s) t)) tools"
proof -
  have "fst (check_dependencies env s) =
          foldl (\<lambda>d t. AList.update t (present env (world s) t) d) [] tools"
    unfolding check_dependencies_def by (rule fst_check_tools)
  then show ?thesis
    by (simp add: tools_def)
qed

lemma missing_of_deps:
  "missing_of (fst (check_dependencies env s)) =
     filter (\<lambda>t. \<not> present env (world s) t) tools"
  by (simp add: fst_check_dependencies missing_of_def filter_map comp_def)

lemma banner_fields [simp]:
  "world (banner i o' s) = world s"
  "temp_dir (banner i o' s) = temp_dir s"
  "verbose (banner i o' s) = verbose s"
  "android_debug_keystore (banner i o' s) = android_debug_keystore s"
  "acts (trace (banner i o' s)) = acts (trace s)"
  by (simp_all add: banner_def)

lemma rmtrees_acts: "rmtrees (acts tr) = rmtrees tr"
  by (induction tr) (auto simp: rmtrees_def elim: is_rmtree.elims)

lemma apktool_runs_acts: "apktool_runs (acts tr) = apktool_runs tr"
  by (induction tr) (auto simp: apktool_runs_def elim: is_apktool.elims)

lemma rmtrees_simps [simp]:
  "rmtrees [] = []"
  "rmtrees (e # es) = (if is_rmtree e then e # rmtrees es else rmtrees es)"
  "rmtrees (xs @ ys) = rmtrees xs @ rmtrees ys"
  by (simp_all add: rmtrees_def)

lemma apktool_runs_simps [simp]:
  "apktool_runs [] = 0"
  "apktool_runs (e # es) = (if is_apktool e then Suc (apktool_runs es) else apktool_runs es)"
  "apktool_runs (xs @ ys) = apktool_runs xs + apktool_runs ys"
  by (simp_all add: apktool_runs_def)

lemma install_events_quiet [simp]:
  "rmtrees (install_events env apk ds w) = []"
  "apktool_runs (install_events env apk ds w) = 0"
  by (induction ds arbitrary: w; simp add: install_events_def install_cmd_def)+

lemma keeps_refl [simp]: "keeps s s"
  by (simp add: keeps_def)

lemma keeps_trans: "keeps s s' \<Longrightarrow> keeps s' s'' \<Longrightarrow> keeps s s''"
  by (simp add: keeps_def)

lemma keeps_logger [simp]: "keeps s (logger l m s') = keeps s s'"
  using rmtrees_acts [of "trace (logger l m s')"] rmtrees_acts [of "trace s'"]
  by (simp add: keeps_def)

lemma keepsI:
  "temp_dir s' = temp_dir s \<Longrightarrow> verbose s' = verbose s \<Longrightarrow>
   android_debug_keystore s' = android_debug_keystore s \<Longrightarrow>
   rmtrees (acts (trace s')) = rmtrees (acts (trace s)) \<Longrightarrow> keeps s s'"
  by (simp add: keeps_def rmtrees_acts)

lemma keeps_rebuild: "keeps s (snd (rebuild_apk env i o' s))"
  by (rule keepsI) (simp_all add: acts_rebuild_apk)

lemma keeps_align: "keeps s (snd (align_apk env i o' s))"
  by (rule keepsI) (simp_all add: acts_align_apk)

lemma keeps_sign: "keeps s (snd (sign_apk env i o' ks s))"
  by (rule keepsI) (simp_all add: acts_sign_apk acts_keystore_or_get)

lemma keeps_install: "keeps s (snd (install_apk env apk s))"
  by (rule keepsI) (simp_all add: acts_install_apk split: res.splits)





lemma apktool_runs_logger [simp]:
  "apktool_runs (trace (logger l m s)) = apktool_runs (trace s)"
proof -
  have "apktool_runs (acts (trace (logger l m s))) = apktool_runs (acts (trace s))"
    by simp
  then show ?thesis
    by (simp only: apktool_runs_acts)
qed

lemma checked_fields [simp]:
  "world (checked env i o' s) = world s"
  "temp_dir (checked env i o' s) = temp_dir s"
  "verbose (checked env i o' s) = verbose s"
  "android_debug_keystore (checked env i o' s) = android_debug_keystore s"
  "acts (trace (checked env i o' s)) = acts (trace s)"
  by (simp_all add: checked_def check_dependencies_def)

lemma check_dependencies_banner:
  "check_dependencies env (banner i o' s) =
     (map (\<lambda>t. (t, present env (world s) t)) tools, checked env i o' s)"
  using fst_check_dependencies [of env "banner i o' s"]
  by (cases "check_dependencies env (banner i o' s)") (simp add: checked_def)

lemma missing_of_map:
  "missing_of (map (\<lambda>t. (t, present env w t)) tools) = missing_tools env w"
  by (simp add: missing_of_def missing_tools_def filter_map comp_def)

lemma process_apk_begin_eq:
  "process_apk_begin env i o' s0 =
     (if missing_tools env (world s0) \<noteq> [] then
        (Ret None,
         logger ERROR
           (RED @ ''[!!!] Missing dependencies: '' @ join '', '' (missing_tools env (world s0))
              @ RESET)
           (checked env i o' s0))
      else
        (case os_mkdtemp env (world s0) ''apkreforge_'' of
           (Inl e, w') \<Rightarrow>
             (Raise e, emit (Mkdtemp ''apkreforge_'' (Inl e)) ((checked env i o' s0)\<lparr>world := w'\<rparr>))
         | (Inr d, w') \<Rightarrow>
             (Ret (Some d),
              logger DEBUG (''Temporary directory: '' @ d)
                (emit (Mkdtemp ''apkreforge_'' (Inr d))
                   ((checked env i o' s0)\<lparr>world := w', temp_dir := Some d\<rparr>)))))"
  unfolding process_apk_begin_def check_dependencies_banner
  by (simp only: prod.case missing_of_map checked_fields)

lemma begin_allocated:
  assumes "fst (process_apk_begin env i o' s0) = Ret (Some d)"
  shows "temp_dir (snd (process_apk_begin env i o' s0)) = Some d"
    and "acts (trace (snd (process_apk_begin env i o' s0))) =
           acts (trace s0) @ [Mkdtemp ''apkreforge_'' (Inr d)]"
    and "verbose (snd (process_apk_begin env i o' s0)) = verbose s0"
    and "android_debug_keystore (snd (process_apk_begin env i o' s0)) = android_debug_keystore s0"
  using assms
  by (auto simp: process_apk_begin_eq split: if_splits prod.splits sum.splits)

lemma last_logger_ERROR: "last (trace (logger ERROR m s)) = Log ERROR m"
  by (simp add: logger_def)

text \<open>
  C1. When the dependency check reports a tool as absent, \<open>process_apk\<close> returns False;
  nothing but log records and prints was added to the trace (no process was started, no
  directory was created or removed), the world and \<open>temp_dir\<close> are untouched; and the last
  record is one error message that joins the names of all the tools that
  \<open>shutil.which\<close> did not find, in the order of the tool list.
\<close>

theorem missing_dependency_gate:
  assumes "(t, False) \<in> set (fst (check_dependencies env s0))"
  shows "fst (process_apk env i o' inst ks s0) = Ret False \<and>
         acts (trace (snd (process_apk env i o' inst ks s0))) = acts (trace s0) \<and>
         temp_dir (snd (process_apk env i o' inst ks s0)) = temp_dir s0 \<and>
         world (snd (process_apk env i o' inst ks s0)) = world s0 \<and>
         last (trace (snd (process_apk env i o' inst ks s0))) =
           Log ERROR
             (RED @ ''[!!!] Missing dependencies: '' @
              join '', '' (missing_of (fst (check_dependencies env s0))) @ RESET) \<and>
         missing_of (fst (check_dependencies env s0)) =
           filter (\<lambda>t. \<not> truthy (os_which env (world s0) t)) tools"
proof -
  have m: "missing_of (fst (check_dependencies env s0)) = missing_tools env (world s0)"
    by (simp add: fst_check_dependencies missing_of_map)
  have "t \<in> set (missing_of (fst (check_dependencies env s0)))"
    using assms by (force simp: missing_of_def)
  then have ne: "missing_tools env (world s0) \<noteq> []"
    unfolding m by auto
  have b: "process_apk_begin env i o' s0 =
             (Ret None,
              logger ERROR
                (RED @ ''[!!!] Missing dependencies: '' @
                 join '', '' (missing_tools env (world s0)) @ RESET)
                (checked env i o' s0))"
    using ne by (simp add: process_apk_begin_eq)
  show ?thesis
    unfolding process_apk_def b m
    by (simp only: prod.case res.case option.case fst_conv snd_conv logger_fields
          checked_fields acts_logger last_logger_ERROR missing_tools_def present_def)
qed

theorem missing_dependency_gate_witness:
  "(''zipalign'', False) \<in>
     set (fst (check_dependencies (sim [''zipalign'', ''adb''] no_override)
                 (init (sim [''zipalign'', ''adb''] no_override) False (project ''34'')))) \<and>
   fst (process_apk (sim [''zipalign'', ''adb''] no_override) ''/work/app'' ''/work/out.apk''
          True None (init (sim [''zipalign'', ''adb''] no_override) False (project ''34'')))
     = Ret False \<and>
   last (trace (snd (process_apk (sim [''zipalign'', ''adb''] no_override) ''/work/app''
          ''/work/out.apk'' True None
          (init (sim [''zipalign'', ''adb''] no_override) False (project ''34'')))))
     = Log ERROR (RED @ ''[!!!] Missing dependencies: zipalign, adb'' @ RESET)"
proof -
  let ?env = "sim [''zipalign'', ''adb''] no_override"
  let ?s0 = "init ?env False (project ''34'')"
  have d: "fst (check_dependencies ?env ?s0) =
             [(''apktool'', True), (''zipalign'', False), (''apksigner'', True),
              (''adb'', False), (''keytool'', True)]"
    by (simp add: fst_check_dependencies tools_def present_def truthy_def sim_def)
  have h: "(''zipalign'', False) \<in> set (fst (check_dependencies ?env ?s0))"
    unfolding d by simp
  have j: "join '', '' (missing_of (fst (check_dependencies ?env ?s0))) = ''zipalign, adb''"
    unfolding d by (simp add: missing_of_def)
  show ?thesis
    using h missing_dependency_gate [OF h, of "''/work/app''" "''/work/out.apk''" True None]
    unfolding j by simp
qed

lemmas sim_simps =
  sim_def toolchain_def finished_def no_override_def failing_def touch_def project_def
  cmd_ok_def run_result_def world_after_def outcome_def exit_zero_def truthy_def init_def
  get_android_debug_keystore_path_def path_join_def

text \<open>
  C3. \<open>align_apk\<close> returns True exactly when the align invocation and then the check
  invocation, each run under the 120 second bound, complete with return code 0; \<open>sign_apk\<close>
  returns True exactly when a keystore was resolved and the sign invocation and then the
  verify invocation complete with return code 0. A transform that exits zero followed by a
  check that does not gives False in both phases.
\<close>

theorem transform_then_verify:
  "fst (align_apk env i o' s) =
     Ret (cmd_ok env (world s) (align_cmd i o') \<and>
          cmd_ok env (world_after env (world s) (align_cmd i o')) (align_check_cmd o')) \<and>
   fst (sign_apk env i o' ks s) =
     Ret (truthy (resolved_ks env ks s) \<and>
          cmd_ok env (world (snd (keystore_or_get env ks s)))
            (sign_cmd (the (resolved_ks env ks s)) o' i) \<and>
          cmd_ok env
            (world_after env (world (snd (keystore_or_get env ks s)))
               (sign_cmd (the (resolved_ks env ks s)) o' i))
            (verify_cmd o')) \<and>
   (cmd_ok env (world s) (align_cmd i o') \<and>
    \<not> cmd_ok env (world_after env (world s) (align_cmd i o')) (align_check_cmd o')
      \<longrightarrow> fst (align_apk env i o' s) = Ret False) \<and>
   (cmd_ok env (world (snd (keystore_or_get env ks s)))
      (sign_cmd (the (resolved_ks env ks s)) o' i) \<and>
    \<not> cmd_ok env
        (world_after env (world (snd (keystore_or_get env ks s)))
           (sign_cmd (the (resolved_ks env ks s)) o' i))
        (verify_cmd o')
      \<longrightarrow> fst (sign_apk env i o' ks s) = Ret False)"
  by (simp add: fst_align_apk fst_sign_apk)

theorem transform_then_verify_witness:
  "cmd_ok (sim [] (failing [''zipalign'', ''-c''])) (project ''34'')
     (align_cmd ''/tmp/u.apk'' ''/tmp/a.apk'') \<and>
   \<not> cmd_ok (sim [] (failing [''zipalign'', ''-c'']))
       (world_after (sim [] (failing [''zipalign'', ''-c''])) (project ''34'')
          (align_cmd ''/tmp/u.apk'' ''/tmp/a.apk''))
       (align_check_cmd ''/tmp/a.apk'') \<and>
   fst (align_apk (sim [] (failing [''zipalign'', ''-c''])) ''/tmp/u.apk'' ''/tmp/a.apk''
          (init (sim [] (failing [''zipalign'', ''-c''])) False (project ''34''))) = Ret False"
proof -
  let ?env = "sim [] (failing [''zipalign'', ''-c''])"
  let ?s = "init ?env False (project ''34'')"
  have w: "world ?s = project ''34''"
    by (simp add: init_def)
  have a: "cmd_ok ?env (project ''34'') (align_cmd ''/tmp/u.apk'' ''/tmp/a.apk'')"
    by (simp add: sim_simps align_cmd_def)
  have c: "\<not> cmd_ok ?env (world_after ?env (project ''34'') (align_cmd ''/tmp/u.apk'' ''/tmp/a.apk''))
             (align_check_cmd ''/tmp/a.apk'')"
    by (simp add: sim_simps align_cmd_def align_check_cmd_def)
  show ?thesis
    using a c transform_then_verify [of ?env "''/tmp/u.apk''" "''/tmp/a.apk''" ?s None]
    unfolding w by blast
qed

lemma phases_return [simp]:
  "rebuild_apk env i o' s \<noteq> (Raise e, s')" "rebuild_apk env i o' s \<noteq> (Diverge, s')"
  "align_apk env i o' s \<noteq> (Raise e, s')" "align_apk env i o' s \<noteq> (Diverge, s')"
  "sign_apk env i o' ks s \<noteq> (Raise e, s')" "sign_apk env i o' ks s \<noteq> (Diverge, s')"
  using fst_rebuild_apk [of env i o' s] fst_align_apk [of env i o' s]
    fst_sign_apk [of env i o' ks s]
  by auto

lemma process_apk_finish_fields [simp]:
  "world (process_apk_finish env o' inst b s) = world s"
  "temp_dir (process_apk_finish env o' inst b s) = temp_dir s"
  "verbose (process_apk_finish env o' inst b s) = verbose s"
  "android_debug_keystore (process_apk_finish env o' inst b s) = android_debug_keystore s"
  "acts (trace (process_apk_finish env o' inst b s)) = acts (trace s)"
  by (simp_all add: process_apk_finish_def)

text \<open>The body of \<open>try\<close>, phase by phase.\<close>

lemma process_apk_try_eq:
  "process_apk_try env i o' inst ks d s =
     (if fst (rebuild_apk env i (path_join d ''unsigned.apk'') s) \<noteq> Ret True then
        (Ret False,
         logger ERROR (RED @ ''Failed rebuild'' @ RESET)
           (snd (rebuild_apk env i (path_join d ''unsigned.apk'') s)))
      else if fst (align_apk env (path_join d ''unsigned.apk'') (path_join d ''aligned.apk'')
                     (snd (rebuild_apk env i (path_join d ''unsigned.apk'') s))) \<noteq> Ret True then
        (Ret False,
         logger ERROR (RED @ ''Failed alignment'' @ RESET)
           (snd (align_apk env (path_join d ''unsigned.apk'') (path_join d ''aligned.apk'')
                   (snd (rebuild_apk env i (path_join d ''unsigned.apk'') s)))))
      else if fst (sign_apk env (path_join d ''aligned.apk'') o' ks
                     (snd (align_apk env (path_join d ''unsigned.apk'') (path_join d ''aligned.apk'')
                             (snd (rebuild_apk env i (path_join d ''unsigned.apk'') s)))))
                \<noteq> Ret True then
        (Ret False,
         logger ERROR (RED @ ''Failed signature'' @ RESET)
           (snd (sign_apk env (path_join d ''aligned.apk'') o' ks
                   (snd (align_apk env (path_join d ''unsigned.apk'') (path_join d ''aligned.apk'')
                           (snd (rebuild_apk env i (path_join d ''unsigned.apk'') s)))))))
      else if inst then
        (case install_apk env o'
                (snd (sign_apk env (path_join d ''aligned.apk'') o' ks
                        (snd (align_apk env (path_join d ''unsigned.apk'')
                                (path_join d ''aligned.apk'')
                                (snd (rebuild_apk env i (path_join d ''unsigned.apk'') s)))))) of
           (Ret b, s4) \<Rightarrow> (Ret True, process_apk_finish env o' True b s4)
         | (Raise e, s4) \<Rightarrow> (Raise e, s4)
         | (Diverge, s4) \<Rightarrow> (Diverge, s4))
      else
        (Ret True,
         process_apk_finish env o' False True
           (snd (sign_apk env (path_join d ''aligned.apk'') o' ks
                   (snd (align_apk env (path_join d ''unsigned.apk'') (path_join d ''aligned.apk'')
                           (snd (rebuild_apk env i (path_join d ''unsigned.apk'') s))))))))"
  unfolding process_apk_try_def Let_def bind_def
  by (auto split: prod.splits res.splits)

lemma world_rebuild_apk:
  "world (snd (rebuild_apk env i o' s)) =
     (if os_exists env (world s) (path_join i ''AndroidManifest.xml'') then
        (if cmd_ok env (world s) (rebuild_cmd i o' (detect_high_sdk env i s))
         then world_after env (world s) (rebuild_cmd i o' (detect_high_sdk env i s))
         else world_after env
                (world_after env (world s) (rebuild_cmd i o' (detect_high_sdk env i s)))
                (rebuild_fallback_cmd i o'))
      else world s)"
  by (simp add: rebuild_apk_def run_command_eq Let_def
        detect_high_sdk_world [of "logger l m s" s for l m])

lemma world_align_apk:
  "world (snd (align_apk env i o' s)) =
     (if cmd_ok env (world s) (align_cmd i o')
      then world_after env (world_after env (world s) (align_cmd i o')) (align_check_cmd o')
      else world_after env (world s) (align_cmd i o'))"
  by (simp add: align_apk_def run_command_eq)

lemma process_apk_try_install:
  assumes "phases_ok env i o' ks d s"
  shows "process_apk_try env i o' True ks d s =
           (case install_apk env o' (after_sign env i o' ks d s) of
              (Ret b, s4) \<Rightarrow> (Ret True, process_apk_finish env o' True b s4)
            | (Raise e, s4) \<Rightarrow> (Raise e, s4)
            | (Diverge, s4) \<Rightarrow> (Diverge, s4))"
  using assms
  unfolding phases_ok_def after_sign_def after_align_def after_rebuild_def rebuilt_apk_def
    aligned_apk_def
  by (simp only: process_apk_try_eq simp_thms if_False if_True)

lemma process_apk_allocated:
  assumes "fst (process_apk_begin env i o' s0) = Ret (Some d)"
  shows "process_apk env i o' inst ks s0 =
           (case process_apk_try env i o' inst ks d (snd (process_apk_begin env i o' s0)) of
              (Ret b, s2) \<Rightarrow> (Ret b, cleanup env s2)
            | (Raise e, s2) \<Rightarrow>
                (Ret False,
                 cleanup env
                   (logger ERROR (RED @ ''CRITICAL ERROR: '' @ str_exn env e @ RESET) s2))
            | (Diverge, s2) \<Rightarrow> (Diverge, s2))"
proof -
  obtain s1 where b: "process_apk_begin env i o' s0 = (Ret (Some d), s1)"
    using assms by (cases "process_apk_begin env i o' s0") simp
  show ?thesis
    by (simp add: process_apk_def b)
qed

lemma trace_logger_mono: "e \<in> set (trace s) \<Longrightarrow> e \<in> set (trace (logger l m s))"
  by (simp add: logger_def)

lemma trace_cleanup_mono: "e \<in> set (trace s) \<Longrightarrow> e \<in> set (trace (cleanup env s))"
  by (auto simp: cleanup_def logger_def split: prod.splits option.splits)

lemma finish_warns:
  "Log WARNING (YELLOW @ ''Installation failed, but APK generated'' @ RESET)
     \<in> set (trace (process_apk_finish env o' True False s))"
  by (simp add: process_apk_finish_def logger_def)

lemma critical_logged:
  "Log ERROR m \<in> set (trace (cleanup env (logger ERROR m s)))"
  by (rule trace_cleanup_mono) (simp add: logger_def)

text \<open>
  C4. When the dependency gate is passed, rebuild, align and sign return True, installation
  was asked for and \<open>install_apk\<close> returns False, \<open>process_apk\<close> returns True, and the
  warning that the installation failed is in the trace.
\<close>

theorem install_failure_is_warning:
  assumes "fst (process_apk_begin env i o' s0) = Ret (Some d)"
    and "phases_ok env i o' ks d (snd (process_apk_begin env i o' s0))"
    and "fst (install_apk env o' (after_sign env i o' ks d (snd (process_apk_begin env i o' s0))))
           = Ret False"
  shows "fst (process_apk env i o' True ks s0) = Ret True \<and>
         Log WARNING (YELLOW @ ''Installation failed, but APK generated'' @ RESET)
           \<in> set (trace (snd (process_apk env i o' True ks s0)))"
proof -
  let ?s1 = "snd (process_apk_begin env i o' s0)"
  obtain s4 where
    i: "install_apk env o' (after_sign env i o' ks d ?s1) = (Ret False, s4)"
    using assms(3) by (cases "install_apk env o' (after_sign env i o' ks d ?s1)") simp
  have t: "process_apk_try env i o' True ks d ?s1 =
             (Ret True, process_apk_finish env o' True False s4)"
    by (simp add: process_apk_try_install [OF assms(2)] i)
  have p: "process_apk env i o' True ks s0 =
             (Ret True, cleanup env (process_apk_finish env o' True False s4))"
    by (simp add: process_apk_allocated [OF assms(1)] t)
  show ?thesis
    unfolding p using trace_cleanup_mono [OF finish_warns] by simp
qed

lemma sim_begin:
  "process_apk_begin (sim [] ov) i o' (init (sim [] ov) v w) =
     (Ret (Some ''/tmp/apkreforge_k3x9''),
      snd (process_apk_begin (sim [] ov) i o' (init (sim [] ov) v w)))"
  "world (snd (process_apk_begin (sim [] ov) i o' (init (sim [] ov) v w))) =
     touch ''/tmp/apkreforge_k3x9'' w"
  "android_debug_keystore (snd (process_apk_begin (sim [] ov) i o' (init (sim [] ov) v w))) =
     ''/home/dev/.android/debug.keystore''"
  by (simp_all add: process_apk_begin_eq missing_tools_def present_def tools_def truthy_def
        sim_def init_def get_android_debug_keystore_path_def path_join_def)

lemma sim_fields [simp]:
  "os_exists (sim ab ov) w p = (p \<in> set (map fst w))"
  "os_gettempdir (sim ab ov) w = ''/tmp''"
  "py_int_max_str_digits (sim ab ov) = 4300"
  "os_read (sim ab ov) w p =
     (case map_of w p of None \<Rightarrow> Inl (OSError ''No such file'') | Some c \<Rightarrow> Inr c)"
  by (simp_all add: sim_def)

lemma sim_process:
  "ov cmd w = None \<Longrightarrow> os_process (sim ab ov) w cmd = toolchain cmd w"
  by (simp add: sim_def)

lemma sim_detect_34:
  "world s = stage \<Longrightarrow> detect_high_sdk (sim ab ov) ''/work/app'' s"
  by (simp add: detect_high_sdk_def stage_def project_def touch_def path_join_def
        match_here_def is_space_def is_digit_def py_int_def int_of_digits_def digit_val_def)

lemma sim_rebuild:
  assumes "\<And>cmd w. take 1 cmd \<noteq> [''adb''] \<Longrightarrow> ov cmd w = None"
    and "world s = stage"
  shows "fst (rebuild_apk (sim [] ov) ''/work/app'' (rebuilt_apk ''/tmp/apkreforge_k3x9'') s)
           = Ret True"
    and "world (after_rebuild (sim [] ov) ''/work/app'' ''/tmp/apkreforge_k3x9'' s) =
           touch ''/tmp/apkreforge_k3x9/unsigned.apk'' stage"
proof -
  let ?c = "rebuild_cmd ''/work/app'' ''/tmp/apkreforge_k3x9/unsigned.apk'' True"
  have r: "rebuilt_apk ''/tmp/apkreforge_k3x9'' = ''/tmp/apkreforge_k3x9/unsigned.apk''"
    by (simp add: rebuilt_apk_def path_join_def)
  have p: "os_process (sim [] ov) stage ?c = toolchain ?c stage"
    by (rule sim_process, rule assms(1)) (simp add: rebuild_cmd_def)
  have t: "toolchain ?c stage =
             (finished 0 [], touch ''/tmp/apkreforge_k3x9/unsigned.apk'' stage)"
    by (simp add: toolchain_def rebuild_cmd_def)
  have e: "os_exists (sim [] ov) stage (path_join ''/work/app'' ''AndroidManifest.xml'')"
    by (simp add: stage_def project_def touch_def path_join_def)
  have ok: "cmd_ok (sim [] ov) stage ?c"
    by (simp add: cmd_ok_def run_result_def p t finished_def outcome_def exit_zero_def)
  have wa: "world_after (sim [] ov) stage ?c = touch ''/tmp/apkreforge_k3x9/unsigned.apk'' stage"
    by (simp add: world_after_def p t)
  show "fst (rebuild_apk (sim [] ov) ''/work/app'' (rebuilt_apk ''/tmp/apkreforge_k3x9'') s)
          = Ret True"
    unfolding r fst_rebuild_apk assms(2) using e ok sim_detect_34 [OF assms(2)] by simp
  show "world (after_rebuild (sim [] ov) ''/work/app'' ''/tmp/apkreforge_k3x9'' s) =
          touch ''/tmp/apkreforge_k3x9/unsigned.apk'' stage"
    unfolding after_rebuild_def r world_rebuild_apk assms(2)
    using e ok wa sim_detect_34 [OF assms(2)] by simp
qed

lemma sim_ok:
  "os_process (sim ab ov) w cmd = (finished 0 out, w') \<Longrightarrow>
   cmd_ok (sim ab ov) w cmd \<and> world_after (sim ab ov) w cmd = w'"
  by (simp add: cmd_ok_def run_result_def world_after_def finished_def outcome_def exit_zero_def)

lemma sim_align:
  assumes "\<And>cmd w. take 1 cmd \<noteq> [''adb''] \<Longrightarrow> ov cmd w = None"
    and "world s = touch ''/tmp/apkreforge_k3x9/unsigned.apk'' stage"
  shows "fst (align_apk (sim [] ov) (rebuilt_apk ''/tmp/apkreforge_k3x9'')
                (aligned_apk ''/tmp/apkreforge_k3x9'') s) = Ret True"
    and "world (snd (align_apk (sim [] ov) (rebuilt_apk ''/tmp/apkreforge_k3x9'')
                       (aligned_apk ''/tmp/apkreforge_k3x9'') s)) = built"
proof -
  let ?u = "''/tmp/apkreforge_k3x9/unsigned.apk''"
  let ?a = "''/tmp/apkreforge_k3x9/aligned.apk''"
  have r: "rebuilt_apk ''/tmp/apkreforge_k3x9'' = ?u" "aligned_apk ''/tmp/apkreforge_k3x9'' = ?a"
    by (simp_all add: rebuilt_apk_def aligned_apk_def path_join_def)
  have p1: "os_process (sim [] ov) (touch ?u stage) (align_cmd ?u ?a) = (finished 0 [], built)"
    by (subst sim_process, rule assms(1))
       (simp_all add: align_cmd_def toolchain_def built_def)
  have p2: "os_process (sim [] ov) built (align_check_cmd ?a) = (finished 0 [], built)"
    by (subst sim_process, rule assms(1))
       (simp_all add: align_check_cmd_def toolchain_def)
  show "fst (align_apk (sim [] ov) (rebuilt_apk ''/tmp/apkreforge_k3x9'')
               (aligned_apk ''/tmp/apkreforge_k3x9'') s) = Ret True"
    unfolding r fst_align_apk assms(2) using sim_ok [OF p1] sim_ok [OF p2] by simp
  show "world (snd (align_apk (sim [] ov) (rebuilt_apk ''/tmp/apkreforge_k3x9'')
                      (aligned_apk ''/tmp/apkreforge_k3x9'') s)) = built"
    unfolding r world_align_apk assms(2) using sim_ok [OF p1] sim_ok [OF p2] by simp
qed

lemma sim_sign:
  assumes "\<And>cmd w. take 1 cmd \<noteq> [''adb''] \<Longrightarrow> ov cmd w = None"
    and "world s = built"
    and "android_debug_keystore s = ''/home/dev/.android/debug.keystore''"
  shows "fst (sign_apk (sim [] ov) (aligned_apk ''/tmp/apkreforge_k3x9'') ''/work/out.apk'' None s)
           = Ret True"
    and "world (snd (sign_apk (sim [] ov) (aligned_apk ''/tmp/apkreforge_k3x9'') ''/work/out.apk''
                       None s)) = signed"
proof -
  let ?a = "''/tmp/apkreforge_k3x9/aligned.apk''"
  let ?k = "''/tmp/apkreforge.keystore''"
  let ?w1 = "touch ?k built"
  have r: "aligned_apk ''/tmp/apkreforge_k3x9'' = ?a"
    by (simp add: aligned_apk_def path_join_def)
  have tk: "temp_keystore (sim [] ov) built = ?k"
    by (simp add: temp_keystore_def path_join_def)
  have nd: "\<not> os_exists (sim [] ov) built ''/home/dev/.android/debug.keystore''"
    by (simp add: built_def stage_def project_def touch_def)
  have p0: "os_process (sim [] ov) built (keytool_cmd ?k) = (finished 0 [], ?w1)"
    by (subst sim_process, rule assms(1))
       (simp_all add: keytool_cmd_def toolchain_def built_def stage_def project_def touch_def)
  have p1: "os_process (sim [] ov) ?w1 (sign_cmd ?k ''/work/out.apk'' ?a) = (finished 0 [], signed)"
    by (subst sim_process, rule assms(1))
       (simp_all add: sign_cmd_def toolchain_def signed_def)
  have p2: "os_process (sim [] ov) signed (verify_cmd ''/work/out.apk'') = (finished 0 [], signed)"
    by (subst sim_process, rule assms(1))
       (simp_all add: verify_cmd_def toolchain_def)
  have k: "resolved_ks (sim [] ov) None s = Some ?k"
    using nd sim_ok [OF p0] by (simp add: resolved_ks_def truthy_def assms(2,3) tk)
  have w: "world (snd (keystore_or_get (sim [] ov) None s)) = ?w1"
    using nd sim_ok [OF p0]
    by (simp add: keystore_or_get_def truthy_def world_get_keystore assms(2,3) tk)
  show "fst (sign_apk (sim [] ov) (aligned_apk ''/tmp/apkreforge_k3x9'') ''/work/out.apk'' None s)
          = Ret True"
    unfolding r fst_sign_apk k w using sim_ok [OF p1] sim_ok [OF p2]
    by (simp add: truthy_def)
  show "world (snd (sign_apk (sim [] ov) (aligned_apk ''/tmp/apkreforge_k3x9'') ''/work/out.apk''
                      None s)) = signed"
    unfolding r world_sign_apk k w using sim_ok [OF p1] sim_ok [OF p2]
    by (simp add: truthy_def)
qed

lemma sim_phases:
  assumes "\<And>cmd w. take 1 cmd \<noteq> [''adb''] \<Longrightarrow> ov cmd w = None"
    and "world s = stage"
    and "android_debug_keystore s = ''/home/dev/.android/debug.keystore''"
  shows "phases_ok (sim [] ov) ''/work/app'' ''/work/out.apk'' None ''/tmp/apkreforge_k3x9'' s"
    and "world (after_sign (sim [] ov) ''/work/app'' ''/work/out.apk'' None
                  ''/tmp/apkreforge_k3x9'' s) = signed"
proof -
  let ?s1 = "after_rebuild (sim [] ov) ''/work/app'' ''/tmp/apkreforge_k3x9'' s"
  let ?s2 = "after_align (sim [] ov) ''/work/app'' ''/tmp/apkreforge_k3x9'' s"
  note rb = sim_rebuild [OF assms(1,2)]
  note al0 = sim_align [OF assms(1) rb(2)]
  have al: "fst (align_apk (sim [] ov) (rebuilt_apk ''/tmp/apkreforge_k3x9'')
                   (aligned_apk ''/tmp/apkreforge_k3x9'') ?s1) = Ret True"
    "world ?s2 = built"
    using al0 by (simp_all only: after_align_def)
  have adk: "android_debug_keystore ?s2 = ''/home/dev/.android/debug.keystore''"
    by (simp add: after_align_def after_rebuild_def assms(3))
  note sg = sim_sign [OF assms(1) al(2) adk]
  show "phases_ok (sim [] ov) ''/work/app'' ''/work/out.apk'' None ''/tmp/apkreforge_k3x9'' s"
    unfolding phases_ok_def using rb(1) al(1) sg(1) by simp
  show "world (after_sign (sim [] ov) ''/work/app'' ''/work/out.apk'' None
                 ''/tmp/apkreforge_k3x9'' s) = signed"
    unfolding after_sign_def by (rule sg(2))
qed

lemma failing_adb_only:
  "take 1 cmd \<noteq> [''adb''] \<Longrightarrow> failing (''adb'' # pre) cmd w = None"
  by (cases cmd) (auto simp: failing_def)

lemma sim_active_devices:
  "active_devices_of
     (splitlines (listing [(''A'', ''device''), (''B'', ''offline''), (''C'', ''device'')])) =
   [''A'', ''C'']"
  by (simp add: listing_def NL_def TAB_def splitlines_def is_linebreak_def active_devices_of_def)

lemma sim_enum:
  "ov [''adb'', ''devices''] w = None \<Longrightarrow>
   enum_result (sim ab ov) w =
     Ret \<lparr>returncode = 0,
          stdout = listing [(''A'', ''device''), (''B'', ''offline''), (''C'', ''device'')],
          stderr = []\<rparr> \<and>
   world_after (sim ab ov) w [''adb'', ''devices''] = w"
  by (simp add: enum_result_def world_after_def sim_process toolchain_def finished_def
        outcome_def)

theorem install_failure_is_warning_witness:
  "fst (process_apk_begin (sim [] (failing [''adb'', ''-s'', ''C''])) ''/work/app'' ''/work/out.apk''
          (init (sim [] (failing [''adb'', ''-s'', ''C''])) False (project ''34'')))
     = Ret (Some ''/tmp/apkreforge_k3x9'') \<and>
   phases_ok (sim [] (failing [''adb'', ''-s'', ''C''])) ''/work/app'' ''/work/out.apk'' None
     ''/tmp/apkreforge_k3x9''
     (snd (process_apk_begin (sim [] (failing [''adb'', ''-s'', ''C''])) ''/work/app''
             ''/work/out.apk''
             (init (sim [] (failing [''adb'', ''-s'', ''C''])) False (project ''34'')))) \<and>
   fst (install_apk (sim [] (failing [''adb'', ''-s'', ''C''])) ''/work/out.apk''
          (after_sign (sim [] (failing [''adb'', ''-s'', ''C''])) ''/work/app'' ''/work/out.apk'' None
             ''/tmp/apkreforge_k3x9''
             (snd (process_apk_begin (sim [] (failing [''adb'', ''-s'', ''C''])) ''/work/app''
                     ''/work/out.apk''
                     (init (sim [] (failing [''adb'', ''-s'', ''C''])) False (project ''34''))))))
     = Ret False \<and>
   fst (process_apk (sim [] (failing [''adb'', ''-s'', ''C''])) ''/work/app'' ''/work/out.apk''
          True None (init (sim [] (failing [''adb'', ''-s'', ''C''])) False (project ''34'')))
     = Ret True"
proof -
  let ?ov = "failing [''adb'', ''-s'', ''C'']"
  let ?env = "sim [] ?ov"
  let ?s0 = "init ?env False (project ''34'')"
  let ?s1 = "snd (process_apk_begin ?env ''/work/app'' ''/work/out.apk'' ?s0)"
  let ?s3 = "after_sign ?env ''/work/app'' ''/work/out.apk'' None ''/tmp/apkreforge_k3x9'' ?s1"
  have b: "fst (process_apk_begin ?env ''/work/app'' ''/work/out.apk'' ?s0)
             = Ret (Some ''/tmp/apkreforge_k3x9'')"
    by (subst sim_begin(1)) simp
  have w1: "world ?s1 = stage"
    by (simp add: sim_begin(2) stage_def)
  note ph = sim_phases [of ?ov ?s1, OF failing_adb_only w1 sim_begin(3)]
  have e: "enum_result ?env signed =
             Ret \<lparr>returncode = 0,
                  stdout = listing [(''A'', ''device''), (''B'', ''offline''), (''C'', ''device'')],
                  stderr = []\<rparr>"
    "world_after ?env signed [''adb'', ''devices''] = signed"
    using sim_enum [of ?ov signed "[]"] by (simp_all add: failing_def)
  have c: "\<not> exit_zero (run_result ?env (world_after ?env signed (install_cmd ''A'' ''/work/out.apk''))
                           (install_cmd ''C'' ''/work/out.apk''))"
    by (simp add: run_result_def sim_def failing_def install_cmd_def finished_def outcome_def
          exit_zero_def)
  have w3: "world ?s3 = signed"
    by (rule ph(2))
  have i: "fst (install_apk ?env ''/work/out.apk'' ?s3) = Ret False"
    using c by (simp add: fst_install_apk w3 e sim_active_devices)
  show ?thesis
    using b ph(1) i install_failure_is_warning [OF b ph(1) i] by simp
qed

lemma process_apk_with_install:
  assumes "fst (process_apk_begin env i o' s0) = Ret (Some d)"
    and "phases_ok env i o' ks d (snd (process_apk_begin env i o' s0))"
  shows "process_apk env i o' True ks s0 =
           (case install_apk env o'
                   (after_sign env i o' ks d (snd (process_apk_begin env i o' s0))) of
              (Ret b, s4) \<Rightarrow> (Ret True, cleanup env (process_apk_finish env o' True b s4))
            | (Raise e, s4) \<Rightarrow>
                (Ret False,
                 cleanup env
                   (logger ERROR (RED @ ''CRITICAL ERROR: '' @ str_exn env e @ RESET) s4))
            | (Diverge, s4) \<Rightarrow> (Diverge, s4))"
  by (simp add: process_apk_allocated [OF assms(1)] process_apk_try_install [OF assms(2)]
        split: prod.splits res.splits)

lemma fst_subprocess_run_None:
  "fst (subprocess_run env [''adb'', ''devices''] None s) = enum_result env (world s)"
  by (simp add: subprocess_run_None)

text \<open>
  C10. After the gate and three successful phases, with installation asked for: when the
  \<open>subprocess.run\<close> call that lists the devices raises, \<open>install_apk\<close> raises the same
  exception, \<open>process_apk\<close> returns False and the critical error is logged; when instead
  \<open>install_apk\<close> returns False, \<open>process_apk\<close> returns True.
\<close>

theorem enumeration_exception_fails_run:
  assumes "fst (process_apk_begin env i o' s0) = Ret (Some d)"
    and "phases_ok env i o' ks d (snd (process_apk_begin env i o' s0))"
  shows "(fst (subprocess_run env [''adb'', ''devices''] None
                 (after_sign env i o' ks d (snd (process_apk_begin env i o' s0)))) = Raise e
          \<longrightarrow>
          fst (install_apk env o' (after_sign env i o' ks d (snd (process_apk_begin env i o' s0))))
            = Raise e \<and>
          fst (process_apk env i o' True ks s0) = Ret False \<and>
          Log ERROR (RED @ ''CRITICAL ERROR: '' @ str_exn env e @ RESET)
            \<in> set (trace (snd (process_apk env i o' True ks s0)))) \<and>
         (fst (install_apk env o' (after_sign env i o' ks d (snd (process_apk_begin env i o' s0))))
            = Ret False
          \<longrightarrow> fst (process_apk env i o' True ks s0) = Ret True)"
proof -
  let ?s3 = "after_sign env i o' ks d (snd (process_apk_begin env i o' s0))"
  note p = process_apk_with_install [OF assms]
  have a: "fst (process_apk env i o' True ks s0) = Ret True"
    if "fst (install_apk env o' ?s3) = Ret False"
    using that by (cases "install_apk env o' ?s3") (simp add: p)
  have b: "fst (install_apk env o' ?s3) = Raise e \<and>
           fst (process_apk env i o' True ks s0) = Ret False \<and>
           Log ERROR (RED @ ''CRITICAL ERROR: '' @ str_exn env e @ RESET)
             \<in> set (trace (snd (process_apk env i o' True ks s0)))"
    if r: "fst (subprocess_run env [''adb'', ''devices''] None ?s3) = Raise e"
  proof -
    have f: "fst (install_apk env o' ?s3) = Raise e"
      using r by (simp add: fst_install_apk fst_subprocess_run_None)
    then obtain s4 where i: "install_apk env o' ?s3 = (Raise e, s4)"
      by (cases "install_apk env o' ?s3") simp
    have q: "process_apk env i o' True ks s0 =
               (Ret False,
                cleanup env
                  (logger ERROR (RED @ ''CRITICAL ERROR: '' @ str_exn env e @ RESET) s4))"
      unfolding p i by simp
    show ?thesis
      unfolding q using f critical_logged [of "RED @ ''CRITICAL ERROR: '' @ str_exn env e @ RESET"]
      by simp
  qed
  show ?thesis
    using a b by blast
qed

theorem enumeration_exception_fails_run_witness:
  "fst (process_apk_begin (sim [] adb_unlaunchable) ''/work/app'' ''/work/out.apk''
          (init (sim [] adb_unlaunchable) False (project ''34'')))
     = Ret (Some ''/tmp/apkreforge_k3x9'') \<and>
   phases_ok (sim [] adb_unlaunchable) ''/work/app'' ''/work/out.apk'' None
     ''/tmp/apkreforge_k3x9''
     (snd (process_apk_begin (sim [] adb_unlaunchable) ''/work/app'' ''/work/out.apk''
             (init (sim [] adb_unlaunchable) False (project ''34'')))) \<and>
   fst (subprocess_run (sim [] adb_unlaunchable) [''adb'', ''devices''] None
          (after_sign (sim [] adb_unlaunchable) ''/work/app'' ''/work/out.apk'' None
             ''/tmp/apkreforge_k3x9''
             (snd (process_apk_begin (sim [] adb_unlaunchable) ''/work/app'' ''/work/out.apk''
                     (init (sim [] adb_unlaunchable) False (project ''34''))))))
     = Raise (OSError ''[Errno 13] Permission denied: adb'') \<and>
   fst (process_apk (sim [] adb_unlaunchable) ''/work/app'' ''/work/out.apk''
          True None (init (sim [] adb_unlaunchable) False (project ''34'')))
     = Ret False"
proof -
  let ?env = "sim [] adb_unlaunchable"
  let ?s0 = "init ?env False (project ''34'')"
  let ?s1 = "snd (process_apk_begin ?env ''/work/app'' ''/work/out.apk'' ?s0)"
  let ?s3 = "after_sign ?env ''/work/app'' ''/work/out.apk'' None ''/tmp/apkreforge_k3x9'' ?s1"
  have b: "fst (process_apk_begin ?env ''/work/app'' ''/work/out.apk'' ?s0)
             = Ret (Some ''/tmp/apkreforge_k3x9'')"
    by (subst sim_begin(1)) simp
  have w1: "world ?s1 = stage"
    by (simp add: sim_begin(2) stage_def)
  have ov: "adb_unlaunchable cmd w = None" if "take 1 cmd \<noteq> [''adb'']" for cmd w
    using that by (simp add: adb_unlaunchable_def)
  note ph = sim_phases [of adb_unlaunchable ?s1, OF ov w1 sim_begin(3)]
  have r: "fst (subprocess_run ?env [''adb'', ''devices''] None ?s3)
             = Raise (OSError ''[Errno 13] Permission denied: adb'')"
    by (simp add: fst_subprocess_run_None enum_result_def sim_def adb_unlaunchable_def
          outcome_def)
  show ?thesis
    using b ph(1) r
      enumeration_exception_fails_run [OF b ph(1),
        of "OSError ''[Errno 13] Permission denied: adb''"]
    by blast
qed

lemma apktool_runs_of_acts:
  "acts (trace s') = acts (trace s) @ evs \<Longrightarrow>
   apktool_runs (trace s') = apktool_runs (trace s) + apktool_runs evs"
  using apktool_runs_acts [of "trace s'"] apktool_runs_acts [of "trace s"]
  by simp

lemma apktool_runs_finish [simp]:
  "apktool_runs (trace (process_apk_finish env o' inst b s)) = apktool_runs (trace s)"
  using apktool_runs_of_acts [of "process_apk_finish env o' inst b s" s "[]"] by simp

lemma apktool_runs_cleanup [simp]:
  "apktool_runs (trace (cleanup env s)) = apktool_runs (trace s)"
  using apktool_runs_of_acts [OF acts_cleanup, of env s] by simp




lemma startswith_iff: "startswith p s = (\<exists>r. s = p @ r)"
  by (induction p s rule: startswith.induct) auto

















text \<open>
  C9 at a failing input: all tools present, the three phases succeed, installation asked
  for, and \<open>adb devices\<close> never exits. The call that lists the devices is made without
  a timeout, so it never returns and neither does \<open>process_apk\<close>; the last thing in the
  trace is that invocation, with no bound. The same child under \<open>run_command\<close> is cut
  off after 120 seconds and counted as a failure.
\<close>

theorem device_listing_has_no_timeout:
  "fst (process_apk (sim [] adb_hangs) ''/work/app'' ''/work/out.apk'' True None
          (init (sim [] adb_hangs) False (project ''34''))) = Diverge \<and>
   last (acts (trace (snd (process_apk (sim [] adb_hangs) ''/work/app'' ''/work/out.apk'' True None
          (init (sim [] adb_hangs) False (project ''34''))))))
     = Spawn [''adb'', ''devices''] None Diverge \<and>
   fst (run_command (sim [] adb_hangs) [''adb'', ''devices''] ''Command failed''
          (init (sim [] adb_hangs) False (project ''34''))) = Ret False"
proof -
  let ?env = "sim [] adb_hangs"
  let ?s0 = "init ?env False (project ''34'')"
  let ?s1 = "snd (process_apk_begin ?env ''/work/app'' ''/work/out.apk'' ?s0)"
  let ?s3 = "after_sign ?env ''/work/app'' ''/work/out.apk'' None ''/tmp/apkreforge_k3x9'' ?s1"
  have b: "fst (process_apk_begin ?env ''/work/app'' ''/work/out.apk'' ?s0)
             = Ret (Some ''/tmp/apkreforge_k3x9'')"
    by (subst sim_begin(1)) simp
  have w1: "world ?s1 = stage"
    by (simp add: sim_begin(2) stage_def)
  have ov: "adb_hangs cmd w = None" if "take 1 cmd \<noteq> [''adb'']" for cmd w
    using that by (simp add: adb_hangs_def)
  note ph = sim_phases [of adb_hangs ?s1, OF ov w1 sim_begin(3)]
  have e: "enum_result ?env w = Diverge" for w
    by (simp add: enum_result_def sim_def adb_hangs_def outcome_def)
  have f: "fst (install_apk ?env ''/work/out.apk'' ?s3) = Diverge"
    by (simp add: fst_install_apk e)
  then obtain s4 where
    i: "install_apk ?env ''/work/out.apk'' ?s3 = (Diverge, s4)"
    by (cases "install_apk ?env ''/work/out.apk'' ?s3") simp
  have s4: "s4 = snd (install_apk ?env ''/work/out.apk'' ?s3)"
    by (simp add: i)
  have a: "acts (trace s4) = acts (trace ?s3) @ [Spawn [''adb'', ''devices''] None Diverge]"
    unfolding s4 by (simp add: acts_install_apk e)
  have p: "process_apk ?env ''/work/app'' ''/work/out.apk'' True None ?s0 = (Diverge, s4)"
    using process_apk_with_install [OF b ph(1)] unfolding i by simp
  have r: "fst (run_command ?env [''adb'', ''devices''] ''Command failed'' ?s0) = Ret False"
    by (simp add: run_command_eq cmd_ok_def run_result_def sim_def adb_hangs_def outcome_def
          exit_zero_def)
  show ?thesis
    unfolding p using a r by simp
qed

lemma length_install_results [simp]: "length (install_results env apk ds w) = length ds"
  by (induction ds arbitrary: w) simp_all

lemma contains_hd: "contains (c # sub) s \<Longrightarrow> c \<in> set s"
  by (induction s) auto

lemma tab_line:
  assumes "TAB \<notin> set i" and "TAB \<notin> set st"
  shows "contains (TAB # ''device'') (i @ TAB # st) = startswith ''device'' st"
    and "takeWhile (\<lambda>c. c \<noteq> TAB) (i @ TAB # st) = i"
proof -
  have n: "\<not> contains (TAB # ''device'') st"
    using assms(2) contains_hd by blast
  show "contains (TAB # ''device'') (i @ TAB # st) = startswith ''device'' st"
    using assms(1) n by (induction i) auto
  show "takeWhile (\<lambda>c. c \<noteq> TAB) (i @ TAB # st) = i"
    using assms(1) by (induction i) auto
qed

lemma contains_iff: "contains sub s = (\<exists>pre post. s = pre @ sub @ post)"
proof (induction s)
  case Nil
  then show ?case by auto
next
  case (Cons c cs)
  show ?case
  proof
    assume "contains sub (c # cs)"
    then consider "startswith sub (c # cs)" | "contains sub cs" by auto
    then show "\<exists>pre post. c # cs = pre @ sub @ post"
    proof cases
      case 1
      then obtain r where "c # cs = sub @ r" by (auto simp: startswith_iff)
      then have "c # cs = [] @ sub @ r" by simp
      then show ?thesis by blast
    next
      case 2
      then obtain pre post where "cs = pre @ sub @ post" using Cons.IH by auto
      then have "c # cs = (c # pre) @ sub @ post" by simp
      then show ?thesis by blast
    qed
  next
    assume "\<exists>pre post. c # cs = pre @ sub @ post"
    then obtain pre post where e: "c # cs = pre @ sub @ post" by blast
    show "contains sub (c # cs)"
    proof (cases pre)
      case Nil
      then have "startswith sub (c # cs)" using e by (auto simp: startswith_iff)
      then show ?thesis by simp
    next
      case (Cons p ps)
      then have "cs = ps @ sub @ post" using e by simp
      then have "contains sub cs" using Cons.IH by blast
      then show ?thesis by simp
    qed
  qed
qed

lemma active_devices_of_lines:
  "active_devices_of [] = []"
  "active_devices_of (hdr # ls) =
     map (takeWhile (\<lambda>c. c \<noteq> TAB)) (filter (contains (TAB # ''device'')) ls)"
  by (simp_all add: active_devices_of_def)

text \<open>
  C5, as the code has it. When the listing call returns, the targets are taken from the
  lines after the first one that contain a tab followed by \<open>device\<close> anywhere, each
  cut at its first tab: an empty listing has no target, the first line is never one
  whatever it holds, and of the other lines exactly those are kept that have the text
  \<open>device\<close> right after a tab at some position, in their order. For a line made of an
  identifier, a tab and a state, both free of tabs, that is when the state begins with
  \<open>device\<close>. One install command is run for each of these targets, in order, whatever the
  earlier ones returned, and the result is True exactly when there is at least one target
  and every install completed with return code 0.
\<close>

theorem install_fan_out:
  assumes "fst (subprocess_run env [''adb'', ''devices''] None s) = Ret result"
  shows "acts (trace (snd (install_apk env apk s))) =
           acts (trace s) @
             Spawn [''adb'', ''devices''] None (Ret result) #
             map (\<lambda>(d, r). Spawn (install_cmd d apk) (Some 120) r)
               (zip (active_devices_of (splitlines (stdout result)))
                  (install_results env apk (active_devices_of (splitlines (stdout result)))
                     (world_after env (world s) [''adb'', ''devices'']))) \<and>
         length (install_results env apk (active_devices_of (splitlines (stdout result)))
                   (world_after env (world s) [''adb'', ''devices'']))
           = length (active_devices_of (splitlines (stdout result))) \<and>
         fst (install_apk env apk s) =
           Ret (active_devices_of (splitlines (stdout result)) \<noteq> [] \<and>
                list_all exit_zero
                  (install_results env apk (active_devices_of (splitlines (stdout result)))
                     (world_after env (world s) [''adb'', ''devices'']))) \<and>
         (TAB \<notin> set i \<and> TAB \<notin> set st \<longrightarrow>
            active_devices_of (hdr # ls @ [i @ TAB # st]) =
              active_devices_of (hdr # ls) @ (if startswith ''device'' st then [i] else [])) \<and>
         active_devices_of [] = [] \<and>
         active_devices_of (hdr # ls) =
           map (takeWhile (\<lambda>c. c \<noteq> TAB)) (filter (contains (TAB # ''device'')) ls) \<and>
         contains (TAB # ''device'') l = (\<exists>pre post. l = pre @ TAB # ''device'' @ post) \<and>
         (TAB \<notin> set a \<longrightarrow> takeWhile (\<lambda>c. c \<noteq> TAB) (a @ TAB # b) = a)"
proof -
  have e: "enum_result env (world s) = Ret result"
    using assms by (simp add: fst_subprocess_run_None)
  have t: "TAB \<notin> set i \<and> TAB \<notin> set st \<longrightarrow>
             active_devices_of (hdr # ls @ [i @ TAB # st]) =
               active_devices_of (hdr # ls) @ (if startswith ''device'' st then [i] else [])"
    using tab_line [of i st] by (simp add: active_devices_of_def)
  have c: "contains (TAB # ''device'') l = (\<exists>pre post. l = pre @ TAB # ''device'' @ post)"
    using contains_iff [of "TAB # ''device''" l] by simp
  have k: "TAB \<notin> set a \<longrightarrow> takeWhile (\<lambda>c. c \<noteq> TAB) (a @ TAB # b) = a"
    by (induction a) auto
  have n: "length (install_results env apk (active_devices_of (splitlines (stdout result)))
                   (world_after env (world s) [''adb'', ''devices'']))
           = length (active_devices_of (splitlines (stdout result)))"
    by simp
  have 1: "acts (trace (snd (install_apk env apk s))) =
           acts (trace s) @
             Spawn [''adb'', ''devices''] None (Ret result) #
             map (\<lambda>(d, r). Spawn (install_cmd d apk) (Some 120) r)
               (zip (active_devices_of (splitlines (stdout result)))
                  (install_results env apk (active_devices_of (splitlines (stdout result)))
                     (world_after env (world s) [''adb'', ''devices''])))"
    by (simp add: acts_install_apk e install_events_def)
  have 2: "fst (install_apk env apk s) =
           Ret (active_devices_of (splitlines (stdout result)) \<noteq> [] \<and>
                list_all exit_zero
                  (install_results env apk (active_devices_of (splitlines (stdout result)))
                     (world_after env (world s) [''adb'', ''devices''])))"
    by (simp add: fst_install_apk e)
  show ?thesis
    using 1 n 2 t active_devices_of_lines(1) active_devices_of_lines(2) [of hdr ls] c k
    by (intro conjI)
qed

text \<open>
  C5 as stated fails: a target whose state is \<open>device-locked\<close>, not \<open>device\<close>, gets an
  install attempt.
\<close>

theorem eligible_by_substring_counterexample:
  "acts (trace (snd (install_apk (sim [] (adb_lists [(''A'', ''device-locked'')])) ''/work/out.apk''
                      (init (sim [] (adb_lists [(''A'', ''device-locked'')])) False
                         (project ''34''))))) =
     [Spawn [''adb'', ''devices''] None
        (Ret \<lparr>returncode = 0, stdout = listing [(''A'', ''device-locked'')], stderr = []\<rparr>),
      Spawn (install_cmd ''A'' ''/work/out.apk'') (Some 120)
        (Ret \<lparr>returncode = 0, stdout = ''Success'', stderr = []\<rparr>)]"
proof -
  let ?env = "sim [] (adb_lists [(''A'', ''device-locked'')])"
  let ?s = "init ?env False (project ''34'')"
  have w: "world ?s = project ''34''" "trace ?s = []"
    by (simp_all add: init_def)
  have e: "enum_result ?env (project ''34'') =
             Ret \<lparr>returncode = 0, stdout = listing [(''A'', ''device-locked'')], stderr = []\<rparr>"
    by (simp add: enum_result_def sim_def adb_lists_def finished_def outcome_def)
  have a: "active_devices_of (splitlines (listing [(''A'', ''device-locked'')])) = [''A'']"
    by (simp add: listing_def NL_def TAB_def splitlines_def is_linebreak_def
          active_devices_of_def)
  have r: "run_result ?env w' (install_cmd ''A'' ''/work/out.apk'') =
             Ret \<lparr>returncode = 0, stdout = ''Success'', stderr = []\<rparr>" for w'
    by (simp add: run_result_def sim_def adb_lists_def install_cmd_def toolchain_def
          finished_def outcome_def)
  show ?thesis
    unfolding acts_install_apk w e by (simp add: a install_events_def r)
qed

theorem install_fan_out_witness:
  "fst (subprocess_run (sim [] (failing [''adb'', ''-s'', ''A''])) [''adb'', ''devices''] None
          (init (sim [] (failing [''adb'', ''-s'', ''A''])) False (project ''34'')))
     = Ret \<lparr>returncode = 0,
            stdout = listing [(''A'', ''device''), (''B'', ''offline''), (''C'', ''device'')],
            stderr = []\<rparr> \<and>
   acts (trace (snd (install_apk (sim [] (failing [''adb'', ''-s'', ''A''])) ''/work/out.apk''
                      (init (sim [] (failing [''adb'', ''-s'', ''A''])) False (project ''34''))))) =
     [Spawn [''adb'', ''devices''] None
        (Ret \<lparr>returncode = 0,
              stdout = listing [(''A'', ''device''), (''B'', ''offline''), (''C'', ''device'')],
              stderr = []\<rparr>),
      Spawn (install_cmd ''A'' ''/work/out.apk'') (Some 120)
        (Ret \<lparr>returncode = 1, stdout = [], stderr = ''failed''\<rparr>),
      Spawn (install_cmd ''C'' ''/work/out.apk'') (Some 120)
        (Ret \<lparr>returncode = 0, stdout = ''Success'', stderr = []\<rparr>)] \<and>
   fst (install_apk (sim [] (failing [''adb'', ''-s'', ''A''])) ''/work/out.apk''
          (init (sim [] (failing [''adb'', ''-s'', ''A''])) False (project ''34''))) = Ret False \<and>
   TAB \<notin> set ''D'' \<and> TAB \<notin> set ''device'' \<and>
   active_devices_of
     [''X'' @ TAB # ''device'', ''A'' @ TAB # ''device'', ''x'' @ TAB # ''y'' @ TAB # ''device z'',
      ''B'' @ TAB # ''offline'', ''C'' @ TAB # ''no device'', ''D'' @ TAB # ''device'']
     = [''A'', ''x'', ''D'']"
proof -
  let ?env = "sim [] (failing [''adb'', ''-s'', ''A''])"
  let ?s = "init ?env False (project ''34'')"
  let ?res = "\<lparr>returncode = 0,
               stdout = listing [(''A'', ''device''), (''B'', ''offline''), (''C'', ''device'')],
               stderr = []\<rparr>"
  let ?ls = "[''A'' @ TAB # ''device'', ''x'' @ TAB # ''y'' @ TAB # ''device z'',
              ''B'' @ TAB # ''offline'', ''C'' @ TAB # ''no device'']"
  have w: "world ?s = project ''34''" "trace ?s = []"
    by (simp_all add: init_def)
  have e: "fst (subprocess_run ?env [''adb'', ''devices''] None ?s) = Ret ?res"
    using sim_enum [of "failing [''adb'', ''-s'', ''A'']" "project ''34''" "[]"]
    by (simp add: fst_subprocess_run_None w failing_def)
  note T = install_fan_out [OF e, where apk = "''/work/out.apk''"
      and hdr = "''X'' @ TAB # ''device''" and ls = ?ls and i = "''D''" and st = "''device''"]
  have rA: "run_result ?env w' (install_cmd ''A'' ''/work/out.apk'') =
              Ret \<lparr>returncode = 1, stdout = [], stderr = ''failed''\<rparr>" for w'
    by (simp add: run_result_def sim_def failing_def install_cmd_def finished_def outcome_def)
  have rC: "run_result ?env w' (install_cmd ''C'' ''/work/out.apk'') =
              Ret \<lparr>returncode = 0, stdout = ''Success'', stderr = []\<rparr>" for w'
    by (simp add: run_result_def sim_def failing_def install_cmd_def toolchain_def
          finished_def outcome_def)
  have a: "acts (trace (snd (install_apk ?env ''/work/out.apk'' ?s))) =
     [Spawn [''adb'', ''devices''] None (Ret ?res),
      Spawn (install_cmd ''A'' ''/work/out.apk'') (Some 120)
        (Ret \<lparr>returncode = 1, stdout = [], stderr = ''failed''\<rparr>),
      Spawn (install_cmd ''C'' ''/work/out.apk'') (Some 120)
        (Ret \<lparr>returncode = 0, stdout = ''Success'', stderr = []\<rparr>)]"
    using T [THEN conjunct1]
    unfolding w
    by (simp add: sim_active_devices rA rC exit_zero_def)
  have f: "fst (install_apk ?env ''/work/out.apk'' ?s) = Ret False"
    using T [THEN conjunct2, THEN conjunct2, THEN conjunct1]
    unfolding w
    by (simp add: sim_active_devices rA rC exit_zero_def)
  have n: "TAB \<notin> set ''D''" "TAB \<notin> set ''device''"
    by (simp_all add: TAB_def)
  have h: "active_devices_of ((''X'' @ TAB # ''device'') # ?ls) = [''A'', ''x'']"
    using T [THEN conjunct2, THEN conjunct2, THEN conjunct2, THEN conjunct2, THEN conjunct2,
        THEN conjunct1]
    by (simp add: TAB_def)
  have l: "active_devices_of ((''X'' @ TAB # ''device'') # ?ls @ [''D'' @ TAB # ''device''])
             = [''A'', ''x'', ''D'']"
    using T [THEN conjunct2, THEN conjunct2, THEN conjunct2, THEN conjunct1] n
    unfolding h by simp
  show ?thesis
    using e a f n l by simp
qed

lemma keeps_finish [simp]: "keeps s (process_apk_finish env o' inst b s') = keeps s s'"
  by (simp add: process_apk_finish_def)

lemma keeps_try: "keeps s (snd (process_apk_try env i o' inst ks d s))"
proof -
  let ?s1 = "snd (rebuild_apk env i (path_join d ''unsigned.apk'') s)"
  let ?s2 = "snd (align_apk env (path_join d ''unsigned.apk'') (path_join d ''aligned.apk'') ?s1)"
  let ?s3 = "snd (sign_apk env (path_join d ''aligned.apk'') o' ks ?s2)"
  have 1: "keeps s ?s1"
    by (rule keeps_rebuild)
  have 2: "keeps s ?s2"
    by (rule keeps_trans [OF 1 keeps_align])
  have 3: "keeps s ?s3"
    by (rule keeps_trans [OF 2 keeps_sign])
  have 4: "keeps s (snd (install_apk env o' ?s3))"
    by (rule keeps_trans [OF 3 keeps_install])
  show ?thesis
    unfolding process_apk_try_eq using 1 2 3 4
    by (cases "install_apk env o' ?s3") (auto split: res.splits)
qed

lemma rmtrees_begin:
  "rmtrees (trace (snd (process_apk_begin env i o' s))) = rmtrees (trace s)"
proof -
  have "rmtrees (acts (trace (snd (process_apk_begin env i o' s)))) = rmtrees (acts (trace s))"
    by (simp add: process_apk_begin_eq split: prod.splits sum.splits)
  then show ?thesis
    by (simp only: rmtrees_acts)
qed

text \<open>
  C6, as the code has it. In a run that created the working directory \<open>d\<close> and whose
  phases come to an end, no removal happens before the end; \<open>cleanup\<close> then runs last.
  It calls \<open>rmtree\<close> on \<open>d\<close> once when \<open>d\<close> still exists at that moment and not at
  all when it does not. The value returned is the one the body of \<open>try\<close> gave (False
  for an exception), whatever \<open>rmtree\<close> did; when \<open>rmtree\<close> raises, the last record
  of the trace is the error that says so.
\<close>

theorem cleanup_at_the_end:
  assumes "fst (process_apk_begin env i o' s0) = Ret (Some d)"
    and "fst (process_apk_try env i o' inst ks d (snd (process_apk_begin env i o' s0)))
           \<noteq> Diverge"
  shows "fst (process_apk env i o' inst ks s0) =
           (case fst (process_apk_try env i o' inst ks d (snd (process_apk_begin env i o' s0))) of
              Ret b \<Rightarrow> Ret b | Raise e \<Rightarrow> Ret False | Diverge \<Rightarrow> Diverge) \<and>
         rmtrees (trace (snd (process_apk_try env i o' inst ks d
                                (snd (process_apk_begin env i o' s0))))) = rmtrees (trace s0) \<and>
         acts (trace (snd (process_apk env i o' inst ks s0))) =
           acts (trace (snd (process_apk_try env i o' inst ks d
                               (snd (process_apk_begin env i o' s0))))) @
           (if d \<noteq> [] \<and>
               os_exists env
                 (world (snd (process_apk_try env i o' inst ks d
                                (snd (process_apk_begin env i o' s0))))) d
            then [Rmtree d
                    (fst (os_rmtree env
                            (world (snd (process_apk_try env i o' inst ks d
                                           (snd (process_apk_begin env i o' s0))))) d))]
            else []) \<and>
         (d \<noteq> [] \<and>
          os_exists env
            (world (snd (process_apk_try env i o' inst ks d
                           (snd (process_apk_begin env i o' s0))))) d \<and>
          fst (os_rmtree env
                 (world (snd (process_apk_try env i o' inst ks d
                                (snd (process_apk_begin env i o' s0))))) d) = Some x
          \<longrightarrow> last (trace (snd (process_apk env i o' inst ks s0))) =
                Log ERROR (''Error clearing temporary: '' @ str_exn env x))"
proof -
  let ?s1 = "snd (process_apk_begin env i o' s0)"
  obtain r s2 where t: "process_apk_try env i o' inst ks d ?s1 = (r, s2)"
    by (cases "process_apk_try env i o' inst ks d ?s1")
  have k: "keeps ?s1 s2"
    using keeps_try [of ?s1 env i o' inst ks d] by (simp add: t)
  have td: "temp_dir s2 = Some d"
    using k begin_allocated(1) [OF assms(1)] by (simp add: keeps_def)
  have rm: "rmtrees (trace s2) = rmtrees (trace s0)"
    using k rmtrees_begin [of env i o' s0] by (simp add: keeps_def)
  have nd: "r \<noteq> Diverge"
    using assms(2) by (simp add: t)
  define s3 where "s3 =
    (case r of Raise e \<Rightarrow> logger ERROR (RED @ ''CRITICAL ERROR: '' @ str_exn env e @ RESET) s2
     | _ \<Rightarrow> s2)"
  have p: "process_apk env i o' inst ks s0 =
             ((case r of Ret b \<Rightarrow> Ret b | Raise e \<Rightarrow> Ret False | Diverge \<Rightarrow> Diverge),
              cleanup env s3)"
    using nd by (cases r) (simp_all add: process_apk_allocated [OF assms(1)] t s3_def)
  have f: "temp_dir s3 = Some d" "world s3 = world s2" "acts (trace s3) = acts (trace s2)"
    using td by (cases r; simp add: s3_def)+
  have l: "last (trace (cleanup env s3)) = Log ERROR (''Error clearing temporary: '' @ str_exn env x)"
    if "d \<noteq> []" "os_exists env (world s2) d" "fst (os_rmtree env (world s2) d) = Some x"
    using that cleanup_failure_logged [of s3 env x] by (simp add: f truthy_def)
  show ?thesis
    unfolding t p using rm l
    by (simp add: acts_cleanup f truthy_def)
qed

text \<open>
  C6 as stated fails where the working directory is gone before the run ends: here the
  rebuild tool fails and empties \<open>/tmp\<close>; the run creates the directory, returns False,
  and never calls \<open>rmtree\<close>.
\<close>

theorem no_removal_when_directory_gone_counterexample:
  "fst (process_apk_begin (sim [] tmp_cleaner) ''/work/app'' ''/work/out.apk''
          (init (sim [] tmp_cleaner) False (project ''34'')))
     = Ret (Some ''/tmp/apkreforge_k3x9'') \<and>
   fst (process_apk (sim [] tmp_cleaner) ''/work/app'' ''/work/out.apk'' False None
          (init (sim [] tmp_cleaner) False (project ''34''))) = Ret False \<and>
   acts (trace (snd (process_apk (sim [] tmp_cleaner) ''/work/app'' ''/work/out.apk'' False None
                      (init (sim [] tmp_cleaner) False (project ''34''))))) =
     [Mkdtemp ''apkreforge_'' (Inr ''/tmp/apkreforge_k3x9''),
      Spawn [''apktool'', ''b'', ''-o'', ''/tmp/apkreforge_k3x9/unsigned.apk'', ''--use-aapt2'',
             ''/work/app''] (Some 120)
        (Ret \<lparr>returncode = 1, stdout = [], stderr = ''failed''\<rparr>),
      Spawn [''apktool'', ''b'', ''/work/app'', ''-o'', ''/tmp/apkreforge_k3x9/unsigned.apk'']
        (Some 120)
        (Ret \<lparr>returncode = 1, stdout = [], stderr = ''failed''\<rparr>)]"
proof -
  let ?env = "sim [] tmp_cleaner"
  let ?s0 = "init ?env False (project ''34'')"
  let ?s1 = "snd (process_apk_begin ?env ''/work/app'' ''/work/out.apk'' ?s0)"
  let ?u = "''/tmp/apkreforge_k3x9/unsigned.apk''"
  let ?c1 = "[''apktool'', ''b'', ''-o'', ?u, ''--use-aapt2'', ''/work/app'']"
  let ?c2 = "[''apktool'', ''b'', ''/work/app'', ''-o'', ?u]"
  let ?s2 = "snd (rebuild_apk ?env ''/work/app'' ?u ?s1)"
  have b: "fst (process_apk_begin ?env ''/work/app'' ''/work/out.apk'' ?s0)
             = Ret (Some ''/tmp/apkreforge_k3x9'')"
    by (subst sim_begin(1)) simp
  have w1: "world ?s1 = stage"
    by (simp add: sim_begin(2) stage_def)
  have a1: "acts (trace ?s1) = [Mkdtemp ''apkreforge_'' (Inr ''/tmp/apkreforge_k3x9'')]"
    using begin_allocated(2) [OF b] by (simp add: init_def)
  have t1: "temp_dir ?s1 = Some ''/tmp/apkreforge_k3x9''"
    by (rule begin_allocated(1) [OF b])
  have c: "rebuild_cmd ''/work/app'' ?u (detect_high_sdk ?env ''/work/app'' ?s1) = ?c1"
    "rebuild_fallback_cmd ''/work/app'' ?u = ?c2"
    by (simp_all add: sim_detect_34 [OF w1] rebuild_cmd_def rebuild_fallback_cmd_def)
  have e: "os_exists ?env stage (path_join ''/work/app'' ''AndroidManifest.xml'')"
    by (simp add: stage_def project_def touch_def path_join_def)
  have r: "run_result ?env w ?c1 = Ret \<lparr>returncode = 1, stdout = [], stderr = ''failed''\<rparr>"
    "run_result ?env w ?c2 = Ret \<lparr>returncode = 1, stdout = [], stderr = ''failed''\<rparr>" for w
    by (simp_all add: run_result_def sim_def tmp_cleaner_def finished_def outcome_def)
  have wa: "world_after ?env (world_after ?env stage ?c1) ?c2 = project ''34''"
    by (simp add: world_after_def sim_def tmp_cleaner_def stage_def project_def touch_def)
  have f2: "fst (rebuild_apk ?env ''/work/app'' ?u ?s1) = Ret False"
    unfolding fst_rebuild_apk c w1 by (simp add: cmd_ok_def r exit_zero_def)
  have a2: "acts (trace ?s2) =
              [Mkdtemp ''apkreforge_'' (Inr ''/tmp/apkreforge_k3x9''),
               Spawn ?c1 (Some 120) (Ret \<lparr>returncode = 1, stdout = [], stderr = ''failed''\<rparr>),
               Spawn ?c2 (Some 120) (Ret \<lparr>returncode = 1, stdout = [], stderr = ''failed''\<rparr>)]"
    unfolding acts_rebuild_apk c w1 a1 using e by (simp add: cmd_ok_def r exit_zero_def)
  have w2: "world ?s2 = project ''34''"
    unfolding world_rebuild_apk c w1 using e by (simp add: cmd_ok_def r exit_zero_def wa)
  have pj: "path_join ''/tmp/apkreforge_k3x9'' ''unsigned.apk'' = ?u"
    by (simp add: path_join_def)
  have t: "process_apk_try ?env ''/work/app'' ''/work/out.apk'' False None
             ''/tmp/apkreforge_k3x9'' ?s1 =
             (Ret False, logger ERROR (RED @ ''Failed rebuild'' @ RESET) ?s2)"
    unfolding process_apk_try_eq pj using f2 by simp
  have p: "process_apk ?env ''/work/app'' ''/work/out.apk'' False None ?s0 =
             (Ret False, cleanup ?env (logger ERROR (RED @ ''Failed rebuild'' @ RESET) ?s2))"
    using process_apk_allocated [OF b, of False None] unfolding t by simp
  have ne: "\<not> os_exists ?env (project ''34'') ''/tmp/apkreforge_k3x9''"
    by (simp add: project_def)
  show ?thesis
    unfolding p using b ne by (simp add: acts_cleanup t1 w2 a2 truthy_def)
qed

lemma process_apk_try_no_install:
  assumes "phases_ok env i o' ks d s"
  shows "process_apk_try env i o' False ks d s =
           (Ret True, process_apk_finish env o' False True (after_sign env i o' ks d s))"
  using assms
  unfolding phases_ok_def after_sign_def after_align_def after_rebuild_def rebuilt_apk_def
    aligned_apk_def
  by (simp only: process_apk_try_eq simp_thms if_False if_True)

theorem cleanup_at_the_end_witness:
  "fst (process_apk_begin (sim [] no_override) ''/work/app'' ''/work/out.apk''
          (init (sim [] no_override) False (project ''34'')))
     = Ret (Some ''/tmp/apkreforge_k3x9'') \<and>
   fst (process_apk_try (sim [] no_override) ''/work/app'' ''/work/out.apk'' False None
          ''/tmp/apkreforge_k3x9''
          (snd (process_apk_begin (sim [] no_override) ''/work/app'' ''/work/out.apk''
                  (init (sim [] no_override) False (project ''34''))))) \<noteq> Diverge \<and>
   fst (process_apk (sim [] no_override) ''/work/app'' ''/work/out.apk'' False None
          (init (sim [] no_override) False (project ''34''))) = Ret True \<and>
   last (acts (trace (snd (process_apk (sim [] no_override) ''/work/app'' ''/work/out.apk''
                             False None (init (sim [] no_override) False (project ''34''))))))
     = Rmtree ''/tmp/apkreforge_k3x9'' None"
proof -
  let ?env = "sim [] no_override"
  let ?s0 = "init ?env False (project ''34'')"
  let ?s1 = "snd (process_apk_begin ?env ''/work/app'' ''/work/out.apk'' ?s0)"
  let ?s3 = "after_sign ?env ''/work/app'' ''/work/out.apk'' None ''/tmp/apkreforge_k3x9'' ?s1"
  have b: "fst (process_apk_begin ?env ''/work/app'' ''/work/out.apk'' ?s0)
             = Ret (Some ''/tmp/apkreforge_k3x9'')"
    by (subst sim_begin(1)) simp
  have w1: "world ?s1 = stage"
    by (simp add: sim_begin(2) stage_def)
  have ov: "no_override cmd w = None" for cmd w
    by (simp add: no_override_def)
  note ph = sim_phases [of no_override ?s1, OF ov w1 sim_begin(3)]
  have t: "process_apk_try ?env ''/work/app'' ''/work/out.apk'' False None
             ''/tmp/apkreforge_k3x9'' ?s1 =
             (Ret True, process_apk_finish ?env ''/work/out.apk'' False True ?s3)"
    by (rule process_apk_try_no_install [OF ph(1)])
  have c: "fst (process_apk_try ?env ''/work/app'' ''/work/out.apk'' False None
             ''/tmp/apkreforge_k3x9'' ?s1) \<noteq> Diverge"
    unfolding t by simp
  have e: "os_exists ?env signed ''/tmp/apkreforge_k3x9''"
    by (simp add: signed_def built_def stage_def touch_def project_def)
  have r: "fst (os_rmtree ?env signed ''/tmp/apkreforge_k3x9'') = None"
    by (simp add: sim_def)
  show ?thesis
    using b c cleanup_at_the_end [OF b c]
    unfolding t using e by (simp add: ph(2) r)
qed

lemma sim_rerun_rebuild_align:
  assumes "\<And>cmd w. take 1 cmd \<noteq> [''adb''] \<Longrightarrow> ov cmd w = None"
    and "world s = touch ''/tmp/apkreforge_k3x9'' leftover"
  shows "fst (rebuild_apk (sim [] ov) ''/work/app'' (rebuilt_apk ''/tmp/apkreforge_k3x9'') s)
           = Ret True"
    and "fst (align_apk (sim [] ov) (rebuilt_apk ''/tmp/apkreforge_k3x9'')
                (aligned_apk ''/tmp/apkreforge_k3x9'')
                (after_rebuild (sim [] ov) ''/work/app'' ''/tmp/apkreforge_k3x9'' s)) = Ret True"
    and "world (after_align (sim [] ov) ''/work/app'' ''/tmp/apkreforge_k3x9'' s) = restage"
proof -
  let ?env = "sim [] ov"
  let ?w = "touch ''/tmp/apkreforge_k3x9'' leftover"
  let ?u = "''/tmp/apkreforge_k3x9/unsigned.apk''"
  let ?a = "''/tmp/apkreforge_k3x9/aligned.apk''"
  let ?c = "rebuild_cmd ''/work/app'' ?u True"
  have r: "rebuilt_apk ''/tmp/apkreforge_k3x9'' = ?u" "aligned_apk ''/tmp/apkreforge_k3x9'' = ?a"
    by (simp_all add: rebuilt_apk_def aligned_apk_def path_join_def)
  have d: "detect_high_sdk ?env ''/work/app'' s"
    by (simp add: detect_high_sdk_def assms(2) leftover_def project_def touch_def path_join_def
          match_here_def is_space_def is_digit_def py_int_def int_of_digits_def digit_val_def)
  have e: "os_exists ?env ?w (path_join ''/work/app'' ''AndroidManifest.xml'')"
    by (simp add: leftover_def project_def touch_def path_join_def)
  have p0: "os_process ?env ?w ?c = (finished 0 [], touch ?u ?w)"
    by (subst sim_process, rule assms(1)) (simp_all add: rebuild_cmd_def toolchain_def)
  have p1: "os_process ?env (touch ?u ?w) (align_cmd ?u ?a) = (finished 0 [], restage)"
    by (subst sim_process, rule assms(1)) (simp_all add: align_cmd_def toolchain_def restage_def)
  have p2: "os_process ?env restage (align_check_cmd ?a) = (finished 0 [], restage)"
    by (subst sim_process, rule assms(1)) (simp_all add: align_check_cmd_def toolchain_def)
  show f: "fst (rebuild_apk ?env ''/work/app'' (rebuilt_apk ''/tmp/apkreforge_k3x9'') s) = Ret True"
    unfolding r fst_rebuild_apk assms(2) using e d sim_ok [OF p0] by simp
  have w1: "world (after_rebuild ?env ''/work/app'' ''/tmp/apkreforge_k3x9'' s) = touch ?u ?w"
    unfolding after_rebuild_def r world_rebuild_apk assms(2) using e d sim_ok [OF p0] by simp
  show "fst (align_apk ?env (rebuilt_apk ''/tmp/apkreforge_k3x9'')
               (aligned_apk ''/tmp/apkreforge_k3x9'')
               (after_rebuild ?env ''/work/app'' ''/tmp/apkreforge_k3x9'' s)) = Ret True"
    unfolding r fst_align_apk w1 using sim_ok [OF p1] sim_ok [OF p2] by simp
  show "world (after_align ?env ''/work/app'' ''/tmp/apkreforge_k3x9'' s) = restage"
    unfolding after_align_def r world_align_apk w1 using sim_ok [OF p1] sim_ok [OF p2] by simp
qed

lemma sim_rerun_sign:
  assumes "\<And>cmd w. take 1 cmd \<noteq> [''adb''] \<Longrightarrow> ov cmd w = None"
    and "world s = restage"
    and "android_debug_keystore s = ''/home/dev/.android/debug.keystore''"
  shows "fst (sign_apk (sim [] ov) (aligned_apk ''/tmp/apkreforge_k3x9'') ''/work/out.apk'' None s)
           = Ret False"
    and "acts (trace (snd (sign_apk (sim [] ov) (aligned_apk ''/tmp/apkreforge_k3x9'')
                             ''/work/out.apk'' None s))) =
           acts (trace s) @
             [Spawn (keytool_cmd ''/tmp/apkreforge.keystore'') (Some 120)
                (Ret \<lparr>returncode = 1, stdout = [], stderr = ''failed''\<rparr>)]"
proof -
  let ?env = "sim [] ov"
  let ?k = "''/tmp/apkreforge.keystore''"
  have tk: "temp_keystore ?env restage = ?k"
    by (simp add: temp_keystore_def path_join_def)
  have nd: "\<not> os_exists ?env restage ''/home/dev/.android/debug.keystore''"
    by (simp add: restage_def leftover_def project_def touch_def)
  have p0: "os_process ?env restage (keytool_cmd ?k) = (finished 1 [], restage)"
    by (subst sim_process, rule assms(1))
       (simp_all add: keytool_cmd_def toolchain_def restage_def leftover_def project_def
          touch_def)
  have rr: "run_result ?env restage (keytool_cmd ?k) =
              Ret \<lparr>returncode = 1, stdout = [], stderr = ''failed''\<rparr>"
    by (simp add: run_result_def p0 finished_def outcome_def)
  have k: "resolved_ks ?env None s = None"
    using nd by (simp add: resolved_ks_def truthy_def assms(2,3) tk cmd_ok_def rr exit_zero_def)
  show "fst (sign_apk ?env (aligned_apk ''/tmp/apkreforge_k3x9'') ''/work/out.apk'' None s)
          = Ret False"
    unfolding fst_sign_apk k by (simp add: truthy_def)
  show "acts (trace (snd (sign_apk ?env (aligned_apk ''/tmp/apkreforge_k3x9'')
                            ''/work/out.apk'' None s))) =
          acts (trace s) @
            [Spawn (keytool_cmd ''/tmp/apkreforge.keystore'') (Some 120)
               (Ret \<lparr>returncode = 1, stdout = [], stderr = ''failed''\<rparr>)]"
    unfolding acts_sign_apk k acts_keystore_or_get assms(2,3) tk rr using nd
    by (simp add: truthy_def)
qed

lemma process_apk_try_sign_fails:
  assumes "fst (rebuild_apk env i (rebuilt_apk d) s) = Ret True"
    and "fst (align_apk env (rebuilt_apk d) (aligned_apk d) (after_rebuild env i d s)) = Ret True"
    and "fst (sign_apk env (aligned_apk d) o' ks (after_align env i d s)) = Ret False"
  shows "process_apk_try env i o' inst ks d s =
           (Ret False, logger ERROR (RED @ ''Failed signature'' @ RESET) (after_sign env i o' ks d s))"
  using assms
  unfolding after_sign_def after_align_def after_rebuild_def rebuilt_apk_def aligned_apk_def
  by (simp add: process_apk_try_eq)

lemma process_apk_sign_fails:
  assumes "fst (process_apk_begin env i o' s0) = Ret (Some d)"
    and "fst (rebuild_apk env i (rebuilt_apk d) (snd (process_apk_begin env i o' s0))) = Ret True"
    and "fst (align_apk env (rebuilt_apk d) (aligned_apk d)
                (after_rebuild env i d (snd (process_apk_begin env i o' s0)))) = Ret True"
    and "fst (sign_apk env (aligned_apk d) o' ks
                (after_align env i d (snd (process_apk_begin env i o' s0)))) = Ret False"
  shows "process_apk env i o' inst ks s0 =
           (Ret False,
            cleanup env
              (logger ERROR (RED @ ''Failed signature'' @ RESET)
                 (after_sign env i o' ks d (snd (process_apk_begin env i o' s0)))))"
  using process_apk_allocated [OF assms(1), of inst ks]
  unfolding process_apk_try_sign_fails [OF assms(2,3,4)] by simp

lemma process_apk_no_install:
  assumes "fst (process_apk_begin env i o' s0) = Ret (Some d)"
    and "phases_ok env i o' ks d (snd (process_apk_begin env i o' s0))"
  shows "process_apk env i o' False ks s0 =
           (Ret True,
            cleanup env
              (process_apk_finish env o' False True
                 (after_sign env i o' ks d (snd (process_apk_begin env i o' s0)))))"
  using process_apk_allocated [OF assms(1), of False ks]
  unfolding process_apk_try_no_install [OF assms(2)] by simp

text \<open>
  C8 at a failing input: two runs of \<open>process_apk\<close> on the same input, no keystore given,
  no debug keystore in the home directory, all tools present. The first run finds no
  debug keystore, has the key generation tool create \<open>/tmp/apkreforge.keystore\<close>,
  succeeds, and leaves the world \<open>leftover\<close>, in which that keystore exists. The second
  run starts from that world. \<open>get_keystore\<close> tests the existence of the debug keystore
  only, never that of the file it is about to generate, so the key generation tool is
  started again on the same path; the keystore being there already, the tool refuses,
  \<open>get_keystore\<close> returns nothing, signing fails and the second run returns False, where
  the first returned True.
\<close>

theorem second_run_regenerates_keystore:
  "fst (process_apk (sim [] no_override) ''/work/app'' ''/work/out.apk'' False None
          (init (sim [] no_override) False (project ''34''))) = Ret True \<and>
   Spawn (keytool_cmd ''/tmp/apkreforge.keystore'') (Some 120)
     (Ret \<lparr>returncode = 0, stdout = [], stderr = []\<rparr>)
     \<in> set (acts (trace (snd (process_apk (sim [] no_override) ''/work/app'' ''/work/out.apk''
                                False None
                                (init (sim [] no_override) False (project ''34'')))))) \<and>
   world (snd (process_apk (sim [] no_override) ''/work/app'' ''/work/out.apk'' False None
                 (init (sim [] no_override) False (project ''34'')))) = leftover \<and>
   os_exists (sim [] no_override) leftover ''/tmp/apkreforge.keystore'' \<and>
   Spawn (keytool_cmd ''/tmp/apkreforge.keystore'') (Some 120)
     (Ret \<lparr>returncode = 1, stdout = [], stderr = ''failed''\<rparr>)
     \<in> set (acts (trace (snd (process_apk (sim [] no_override) ''/work/app'' ''/work/out.apk''
                                False None (init (sim [] no_override) False leftover))))) \<and>
   fst (process_apk (sim [] no_override) ''/work/app'' ''/work/out.apk'' False None
          (init (sim [] no_override) False leftover)) = Ret False"
proof -
  let ?env = "sim [] no_override"
  let ?D = "''/tmp/apkreforge_k3x9''"
  let ?k = "''/tmp/apkreforge.keystore''"
  have ov: "no_override cmd w = None" for cmd w
    by (simp add: no_override_def)
  \<comment> \<open>first run\<close>
  let ?s0 = "init ?env False (project ''34'')"
  let ?s1 = "snd (process_apk_begin ?env ''/work/app'' ''/work/out.apk'' ?s0)"
  let ?s2 = "after_align ?env ''/work/app'' ?D ?s1"
  let ?s3 = "after_sign ?env ''/work/app'' ''/work/out.apk'' None ?D ?s1"
  have b: "fst (process_apk_begin ?env ''/work/app'' ''/work/out.apk'' ?s0) = Ret (Some ?D)"
    by (subst sim_begin(1)) simp
  have w1: "world ?s1 = stage"
    by (simp add: sim_begin(2) stage_def)
  note ph = sim_phases [of no_override ?s1, OF ov w1 sim_begin(3)]
  note p1 = process_apk_no_install [OF b ph(1)]
  have w2: "world ?s2 = built"
    unfolding after_align_def
    by (rule sim_align(2) [OF ov sim_rebuild(2) [OF ov w1]])
  have adk2: "android_debug_keystore ?s2 = ''/home/dev/.android/debug.keystore''"
    by (simp add: after_align_def after_rebuild_def sim_begin(3))
  have nd: "\<not> os_exists ?env built ''/home/dev/.android/debug.keystore''"
    by (simp add: built_def stage_def project_def touch_def)
  have rr: "run_result ?env built (keytool_cmd ?k) =
              Ret \<lparr>returncode = 0, stdout = [], stderr = []\<rparr>"
    by (simp add: run_result_def sim_def no_override_def keytool_cmd_def toolchain_def
          built_def stage_def project_def touch_def finished_def outcome_def)
  have tk: "temp_keystore ?env built = ?k"
    by (simp add: temp_keystore_def path_join_def)
  have m1: "Spawn (keytool_cmd ?k) (Some 120) (Ret \<lparr>returncode = 0, stdout = [], stderr = []\<rparr>)
              \<in> set (acts (trace ?s3))"
    unfolding after_sign_def acts_sign_apk acts_keystore_or_get w2 adk2 tk rr
    using nd by (simp add: truthy_def)
  have e3: "os_exists ?env signed ?D"
    by (simp add: signed_def built_def stage_def touch_def project_def)
  have lw: "snd (os_rmtree ?env signed ?D) = leftover"
    by (simp add: sim_def signed_def built_def stage_def leftover_def touch_def project_def)
  have t3: "temp_dir ?s3 = Some ?D"
    using begin_allocated(1) [OF b] by (simp add: after_sign_def after_align_def after_rebuild_def)
  have r1: "world (snd (process_apk ?env ''/work/app'' ''/work/out.apk'' False None ?s0)) = leftover"
    unfolding p1 using e3 by (simp add: world_cleanup t3 ph(2) truthy_def lw)
  have a1: "Spawn (keytool_cmd ?k) (Some 120) (Ret \<lparr>returncode = 0, stdout = [], stderr = []\<rparr>)
              \<in> set (acts (trace (snd (process_apk ?env ''/work/app'' ''/work/out.apk'' False None
                                         ?s0))))"
    unfolding p1 using m1 by (simp add: acts_cleanup)
  \<comment> \<open>second run\<close>
  let ?t0 = "init ?env False leftover"
  let ?t1 = "snd (process_apk_begin ?env ''/work/app'' ''/work/out.apk'' ?t0)"
  let ?t2 = "after_align ?env ''/work/app'' ?D ?t1"
  let ?t3 = "after_sign ?env ''/work/app'' ''/work/out.apk'' None ?D ?t1"
  have b': "fst (process_apk_begin ?env ''/work/app'' ''/work/out.apk'' ?t0) = Ret (Some ?D)"
    by (subst sim_begin(1)) simp
  have v1: "world ?t1 = touch ?D leftover"
    by (simp add: sim_begin(2))
  note ra = sim_rerun_rebuild_align [of no_override ?t1, OF ov v1]
  have adk': "android_debug_keystore ?t2 = ''/home/dev/.android/debug.keystore''"
    by (simp add: after_align_def after_rebuild_def sim_begin(3))
  note sg = sim_rerun_sign [of no_override ?t2, OF ov ra(3) adk']
  note p2 = process_apk_sign_fails [OF b' ra(1) ra(2) sg(1), of False]
  have m2: "Spawn (keytool_cmd ?k) (Some 120)
              (Ret \<lparr>returncode = 1, stdout = [], stderr = ''failed''\<rparr>)
              \<in> set (acts (trace ?t3))"
    unfolding after_sign_def sg(2) by simp
  have a2: "Spawn (keytool_cmd ?k) (Some 120)
              (Ret \<lparr>returncode = 1, stdout = [], stderr = ''failed''\<rparr>)
              \<in> set (acts (trace (snd (process_apk ?env ''/work/app'' ''/work/out.apk'' False None
                                         ?t0))))"
    unfolding p2 using m2 by (simp add: acts_cleanup)
  have k: "os_exists ?env leftover ?k"
    by (simp add: leftover_def project_def touch_def)
  have f1: "fst (process_apk ?env ''/work/app'' ''/work/out.apk'' False None ?s0) = Ret True"
    unfolding p1 by simp
  have f2: "fst (process_apk ?env ''/work/app'' ''/work/out.apk'' False None ?t0) = Ret False"
    unfolding p2 by simp
  show ?thesis
    using f1 a1 r1 k a2 f2 by (intro conjI)
qed

lemma process_apk_try_early:
  "fst (rebuild_apk env i (rebuilt_apk d) s) \<noteq> Ret True \<Longrightarrow>
   process_apk_try env i o' inst ks d s =
     (Ret False, logger ERROR (RED @ ''Failed rebuild'' @ RESET) (after_rebuild env i d s))"
  "fst (rebuild_apk env i (rebuilt_apk d) s) = Ret True \<Longrightarrow>
   fst (align_apk env (rebuilt_apk d) (aligned_apk d) (after_rebuild env i d s)) \<noteq> Ret True \<Longrightarrow>
   process_apk_try env i o' inst ks d s =
     (Ret False, logger ERROR (RED @ ''Failed alignment'' @ RESET) (after_align env i d s))"
  unfolding after_align_def after_rebuild_def rebuilt_apk_def aligned_apk_def
  by (simp_all add: process_apk_try_eq)

text \<open>
  C7, as the code has it. A run that fails in the rebuild or the alignment phase ends
  there, before \<open>sign_apk\<close> is called. In the signing phase the output path is the
  \<open>--out\<close> argument of the sign invocation, the first of the two; the verification
  follows only when that one completed with return code 0. When the phase then returns
  False, the run logs the failure, runs \<open>cleanup\<close> and returns False: the world at the
  end is the one the last of these invocations left, but for the removal of the working
  directory, so what the sign invocation wrote at the output path stays.
\<close>

theorem output_written_by_sign_invocation:
  assumes "fst (process_apk_begin env i o' s0) = Ret (Some d)"
  shows "(fst (rebuild_apk env i (rebuilt_apk d) (snd (process_apk_begin env i o' s0))) \<noteq> Ret True
          \<longrightarrow>
          process_apk env i o' inst ks s0 =
            (Ret False,
             cleanup env
               (logger ERROR (RED @ ''Failed rebuild'' @ RESET)
                  (after_rebuild env i d (snd (process_apk_begin env i o' s0)))))) \<and>
         (fst (rebuild_apk env i (rebuilt_apk d) (snd (process_apk_begin env i o' s0))) = Ret True \<and>
          fst (align_apk env (rebuilt_apk d) (aligned_apk d)
                 (after_rebuild env i d (snd (process_apk_begin env i o' s0)))) \<noteq> Ret True
          \<longrightarrow>
          process_apk env i o' inst ks s0 =
            (Ret False,
             cleanup env
               (logger ERROR (RED @ ''Failed alignment'' @ RESET)
                  (after_align env i d (snd (process_apk_begin env i o' s0)))))) \<and>
         (fst (rebuild_apk env i (rebuilt_apk d) (snd (process_apk_begin env i o' s0))) = Ret True \<and>
          fst (align_apk env (rebuilt_apk d) (aligned_apk d)
                 (after_rebuild env i d (snd (process_apk_begin env i o' s0)))) = Ret True \<and>
          fst (sign_apk env (aligned_apk d) o' ks
                 (after_align env i d (snd (process_apk_begin env i o' s0)))) = Ret False
          \<longrightarrow>
          process_apk env i o' inst ks s0 =
            (Ret False,
             cleanup env
               (logger ERROR (RED @ ''Failed signature'' @ RESET)
                  (after_sign env i o' ks d (snd (process_apk_begin env i o' s0))))) \<and>
          world (snd (process_apk env i o' inst ks s0)) =
            (if d \<noteq> [] \<and>
                os_exists env
                  (world (after_sign env i o' ks d (snd (process_apk_begin env i o' s0)))) d
             then snd (os_rmtree env
                         (world (after_sign env i o' ks d (snd (process_apk_begin env i o' s0))))
                         d)
             else world (after_sign env i o' ks d (snd (process_apk_begin env i o' s0))))) \<and>
         acts (trace (snd (sign_apk env a o' ks s))) =
           acts (trace (snd (keystore_or_get env ks s))) @
             (if truthy (resolved_ks env ks s) then
                Spawn (sign_cmd (the (resolved_ks env ks s)) o' a) (Some 120)
                  (run_result env (world (snd (keystore_or_get env ks s)))
                     (sign_cmd (the (resolved_ks env ks s)) o' a)) #
                (if cmd_ok env (world (snd (keystore_or_get env ks s)))
                      (sign_cmd (the (resolved_ks env ks s)) o' a)
                 then [Spawn (verify_cmd o') (Some 120)
                         (run_result env
                            (world_after env (world (snd (keystore_or_get env ks s)))
                               (sign_cmd (the (resolved_ks env ks s)) o' a))
                            (verify_cmd o'))]
                 else [])
              else []) \<and>
         world (snd (sign_apk env a o' ks s)) =
           (if truthy (resolved_ks env ks s) then
              (if cmd_ok env (world (snd (keystore_or_get env ks s)))
                    (sign_cmd (the (resolved_ks env ks s)) o' a)
               then world_after env
                      (world_after env (world (snd (keystore_or_get env ks s)))
                         (sign_cmd (the (resolved_ks env ks s)) o' a))
                      (verify_cmd o')
               else world_after env (world (snd (keystore_or_get env ks s)))
                      (sign_cmd (the (resolved_ks env ks s)) o' a))
            else world (snd (keystore_or_get env ks s)))"
proof -
  let ?s1 = "snd (process_apk_begin env i o' s0)"
  note al = process_apk_allocated [OF assms, of inst ks]
  have t1: "temp_dir ?s1 = Some d"
    by (rule begin_allocated(1) [OF assms])
  have r: "process_apk env i o' inst ks s0 =
             (Ret False,
              cleanup env
                (logger ERROR (RED @ ''Failed rebuild'' @ RESET) (after_rebuild env i d ?s1)))"
    if "fst (rebuild_apk env i (rebuilt_apk d) ?s1) \<noteq> Ret True"
    using al unfolding process_apk_try_early(1) [OF that] by simp
  have a: "process_apk env i o' inst ks s0 =
             (Ret False,
              cleanup env
                (logger ERROR (RED @ ''Failed alignment'' @ RESET) (after_align env i d ?s1)))"
    if "fst (rebuild_apk env i (rebuilt_apk d) ?s1) = Ret True"
      "fst (align_apk env (rebuilt_apk d) (aligned_apk d) (after_rebuild env i d ?s1)) \<noteq> Ret True"
    using al unfolding process_apk_try_early(2) [OF that] by simp
  have g: "process_apk env i o' inst ks s0 =
             (Ret False,
              cleanup env
                (logger ERROR (RED @ ''Failed signature'' @ RESET)
                   (after_sign env i o' ks d ?s1))) \<and>
           world (snd (process_apk env i o' inst ks s0)) =
             (if d \<noteq> [] \<and> os_exists env (world (after_sign env i o' ks d ?s1)) d
              then snd (os_rmtree env (world (after_sign env i o' ks d ?s1)) d)
              else world (after_sign env i o' ks d ?s1))"
    if "fst (rebuild_apk env i (rebuilt_apk d) ?s1) = Ret True"
      "fst (align_apk env (rebuilt_apk d) (aligned_apk d) (after_rebuild env i d ?s1)) = Ret True"
      "fst (sign_apk env (aligned_apk d) o' ks (after_align env i d ?s1)) = Ret False"
  proof -
    have t3: "temp_dir (after_sign env i o' ks d ?s1) = Some d"
      using t1 by (simp add: after_sign_def after_align_def after_rebuild_def)
    show ?thesis
      unfolding process_apk_sign_fails [OF assms that]
      by (simp add: world_cleanup t3 truthy_def)
  qed
  show ?thesis
    using r a g acts_sign_apk [of env a o' ks s] world_sign_apk [of env a o' ks s]
    by (intro conjI impI) blast+
qed

lemma sim_unverified:
  assumes "world s = stage"
    and "android_debug_keystore s = ''/home/dev/.android/debug.keystore''"
  shows "fst (rebuild_apk (sim [] (failing [''apksigner'', ''verify''])) ''/work/app''
                (rebuilt_apk ''/tmp/apkreforge_k3x9'') s) = Ret True"
    and "fst (align_apk (sim [] (failing [''apksigner'', ''verify'']))
                (rebuilt_apk ''/tmp/apkreforge_k3x9'') (aligned_apk ''/tmp/apkreforge_k3x9'')
                (after_rebuild (sim [] (failing [''apksigner'', ''verify''])) ''/work/app''
                   ''/tmp/apkreforge_k3x9'' s)) = Ret True"
    and "fst (sign_apk (sim [] (failing [''apksigner'', ''verify'']))
                (aligned_apk ''/tmp/apkreforge_k3x9'') ''/work/out.apk'' None
                (after_align (sim [] (failing [''apksigner'', ''verify''])) ''/work/app''
                   ''/tmp/apkreforge_k3x9'' s)) = Ret False"
    and "world (after_sign (sim [] (failing [''apksigner'', ''verify''])) ''/work/app''
                  ''/work/out.apk'' None ''/tmp/apkreforge_k3x9'' s) = signed"
proof -
  let ?env = "sim [] (failing [''apksigner'', ''verify''])"
  let ?u = "''/tmp/apkreforge_k3x9/unsigned.apk''"
  let ?a = "''/tmp/apkreforge_k3x9/aligned.apk''"
  let ?k = "''/tmp/apkreforge.keystore''"
  let ?c = "rebuild_cmd ''/work/app'' ?u True"
  let ?s1 = "after_rebuild ?env ''/work/app'' ''/tmp/apkreforge_k3x9'' s"
  let ?s2 = "after_align ?env ''/work/app'' ''/tmp/apkreforge_k3x9'' s"
  have r: "rebuilt_apk ''/tmp/apkreforge_k3x9'' = ?u" "aligned_apk ''/tmp/apkreforge_k3x9'' = ?a"
    by (simp_all add: rebuilt_apk_def aligned_apk_def path_join_def)
  have e: "os_exists ?env stage (path_join ''/work/app'' ''AndroidManifest.xml'')"
    by (simp add: stage_def project_def touch_def path_join_def)
  have p0: "os_process ?env stage ?c = (finished 0 [], touch ?u stage)"
    by (simp add: sim_def failing_def rebuild_cmd_def toolchain_def)
  have p1: "os_process ?env (touch ?u stage) (align_cmd ?u ?a) = (finished 0 [], built)"
    by (simp add: sim_def failing_def align_cmd_def toolchain_def built_def)
  have p2: "os_process ?env built (align_check_cmd ?a) = (finished 0 [], built)"
    by (simp add: sim_def failing_def align_check_cmd_def toolchain_def)
  have p3: "os_process ?env built (keytool_cmd ?k) = (finished 0 [], touch ?k built)"
    by (simp add: sim_def failing_def keytool_cmd_def toolchain_def built_def stage_def
          project_def touch_def)
  have p4: "os_process ?env (touch ?k built) (sign_cmd ?k ''/work/out.apk'' ?a)
              = (finished 0 [], signed)"
    by (simp add: sim_def failing_def sign_cmd_def toolchain_def signed_def)
  have p5: "os_process ?env signed (verify_cmd ''/work/out.apk'') = (finished 1 [], signed)"
    by (simp add: sim_def failing_def verify_cmd_def toolchain_def)
  have nv: "\<not> cmd_ok ?env signed (verify_cmd ''/work/out.apk'')"
    "world_after ?env signed (verify_cmd ''/work/out.apk'') = signed"
    by (simp_all add: cmd_ok_def run_result_def world_after_def p5 finished_def outcome_def
          exit_zero_def)
  show "fst (rebuild_apk ?env ''/work/app'' (rebuilt_apk ''/tmp/apkreforge_k3x9'') s) = Ret True"
    unfolding r fst_rebuild_apk assms(1) using e sim_detect_34 [OF assms(1)] sim_ok [OF p0]
    by simp
  have w1: "world ?s1 = touch ?u stage"
    unfolding after_rebuild_def r world_rebuild_apk assms(1)
    using e sim_detect_34 [OF assms(1)] sim_ok [OF p0] by simp
  show "fst (align_apk ?env (rebuilt_apk ''/tmp/apkreforge_k3x9'')
               (aligned_apk ''/tmp/apkreforge_k3x9'') ?s1) = Ret True"
    unfolding r fst_align_apk w1 using sim_ok [OF p1] sim_ok [OF p2] by simp
  have w2: "world ?s2 = built"
    unfolding after_align_def r world_align_apk w1 using sim_ok [OF p1] sim_ok [OF p2] by simp
  have adk: "android_debug_keystore ?s2 = ''/home/dev/.android/debug.keystore''"
    by (simp add: after_align_def after_rebuild_def assms(2))
  have tk: "temp_keystore ?env built = ?k"
    by (simp add: temp_keystore_def path_join_def)
  have nd: "\<not> os_exists ?env built ''/home/dev/.android/debug.keystore''"
    by (simp add: built_def stage_def project_def touch_def)
  have k: "resolved_ks ?env None ?s2 = Some ?k"
    using nd sim_ok [OF p3] by (simp add: resolved_ks_def truthy_def w2 adk tk)
  have wk: "world (snd (keystore_or_get ?env None ?s2)) = touch ?k built"
    using nd sim_ok [OF p3]
    by (simp add: keystore_or_get_def truthy_def world_get_keystore w2 adk tk)
  show "fst (sign_apk ?env (aligned_apk ''/tmp/apkreforge_k3x9'') ''/work/out.apk'' None ?s2)
          = Ret False"
    unfolding r fst_sign_apk k wk using sim_ok [OF p4] nv by (simp add: truthy_def)
  show "world (after_sign ?env ''/work/app'' ''/work/out.apk'' None ''/tmp/apkreforge_k3x9'' s)
          = signed"
    unfolding after_sign_def r world_sign_apk k wk using sim_ok [OF p4] nv
    by (simp add: truthy_def)
qed

text \<open>
  C7 as stated fails: the sign invocation succeeds and writes \<open>/work/out.apk\<close>, the
  verification fails, the run returns False, and the file, which was not there before
  the run, is there after it.
\<close>

theorem unverified_output_left_counterexample:
  "\<not> os_exists (sim [] (failing [''apksigner'', ''verify''])) (project ''34'') ''/work/out.apk'' \<and>
   fst (process_apk (sim [] (failing [''apksigner'', ''verify''])) ''/work/app'' ''/work/out.apk''
          False None (init (sim [] (failing [''apksigner'', ''verify''])) False (project ''34'')))
     = Ret False \<and>
   os_exists (sim [] (failing [''apksigner'', ''verify'']))
     (world (snd (process_apk (sim [] (failing [''apksigner'', ''verify''])) ''/work/app''
                    ''/work/out.apk'' False None
                    (init (sim [] (failing [''apksigner'', ''verify''])) False (project ''34'')))))
     ''/work/out.apk''"
proof -
  let ?env = "sim [] (failing [''apksigner'', ''verify''])"
  let ?D = "''/tmp/apkreforge_k3x9''"
  let ?s0 = "init ?env False (project ''34'')"
  let ?s1 = "snd (process_apk_begin ?env ''/work/app'' ''/work/out.apk'' ?s0)"
  let ?s3 = "after_sign ?env ''/work/app'' ''/work/out.apk'' None ?D ?s1"
  have b: "fst (process_apk_begin ?env ''/work/app'' ''/work/out.apk'' ?s0) = Ret (Some ?D)"
    by (subst sim_begin(1)) simp
  have w1: "world ?s1 = stage"
    by (simp add: sim_begin(2) stage_def)
  note u = sim_unverified [of ?s1, OF w1 sim_begin(3)]
  note p = process_apk_sign_fails [OF b u(1) u(2) u(3), of False]
  have t3: "temp_dir ?s3 = Some ?D"
    using begin_allocated(1) [OF b] by (simp add: after_sign_def after_align_def after_rebuild_def)
  have e3: "os_exists ?env signed ?D"
    by (simp add: signed_def built_def stage_def touch_def project_def)
  have lw: "snd (os_rmtree ?env signed ?D) = leftover"
    by (simp add: sim_def signed_def built_def stage_def leftover_def touch_def project_def)
  have n: "\<not> os_exists ?env (project ''34'') ''/work/out.apk''"
    by (simp add: project_def)
  have o: "os_exists ?env leftover ''/work/out.apk''"
    by (simp add: leftover_def touch_def project_def)
  have w: "world (snd (process_apk ?env ''/work/app'' ''/work/out.apk'' False None ?s0)) = leftover"
    unfolding p using e3 by (simp add: world_cleanup t3 u(4) truthy_def lw)
  have f: "fst (process_apk ?env ''/work/app'' ''/work/out.apk'' False None ?s0) = Ret False"
    unfolding p by simp
  show ?thesis
    unfolding w using n f o by (intro conjI)
qed

theorem output_written_by_sign_invocation_witness:
  "fst (process_apk_begin (sim [] (failing [''apksigner'', ''verify''])) ''/work/app''
          ''/work/out.apk''
          (init (sim [] (failing [''apksigner'', ''verify''])) True (project ''34'')))
     = Ret (Some ''/tmp/apkreforge_k3x9'') \<and>
   fst (sign_apk (sim [] (failing [''apksigner'', ''verify'']))
          (aligned_apk ''/tmp/apkreforge_k3x9'') ''/work/out.apk'' None
          (after_align (sim [] (failing [''apksigner'', ''verify''])) ''/work/app''
             ''/tmp/apkreforge_k3x9''
             (snd (process_apk_begin (sim [] (failing [''apksigner'', ''verify''])) ''/work/app''
                     ''/work/out.apk''
                     (init (sim [] (failing [''apksigner'', ''verify''])) True (project ''34''))))))
     = Ret False \<and>
   world (snd (process_apk (sim [] (failing [''apksigner'', ''verify''])) ''/work/app''
                 ''/work/out.apk'' True None
                 (init (sim [] (failing [''apksigner'', ''verify''])) True (project ''34''))))
     = leftover"
proof -
  let ?env = "sim [] (failing [''apksigner'', ''verify''])"
  let ?D = "''/tmp/apkreforge_k3x9''"
  let ?s0 = "init ?env True (project ''34'')"
  let ?s1 = "snd (process_apk_begin ?env ''/work/app'' ''/work/out.apk'' ?s0)"
  have b: "fst (process_apk_begin ?env ''/work/app'' ''/work/out.apk'' ?s0) = Ret (Some ?D)"
    by (subst sim_begin(1)) simp
  have w1: "world ?s1 = stage"
    by (simp add: sim_begin(2) stage_def)
  note u = sim_unverified [of ?s1, OF w1 sim_begin(3)]
  have e3: "os_exists ?env signed ?D"
    by (simp add: signed_def built_def stage_def touch_def project_def)
  have lw: "snd (os_rmtree ?env signed ?D) = leftover"
    by (simp add: sim_def signed_def built_def stage_def leftover_def touch_def project_def)
  note th = output_written_by_sign_invocation [OF b, of True None "[]" ?s0]
  note w = th [THEN conjunct2, THEN conjunct2, THEN conjunct1, THEN mp,
      OF conjI [OF u(1) conjI [OF u(2) u(3)]], THEN conjunct2]
  have "world (snd (process_apk ?env ''/work/app'' ''/work/out.apk'' True None ?s0)) = leftover"
    using w e3 unfolding u(4) lw by simp
  then show ?thesis
    using b u(3) by (intro conjI)
qed

end
